theory Spec2Isabelle
  imports Main
begin

section \<open>Errors and primitive Python values\<close>

text \<open>
  Every way an endpoint or helper of the backend can stop without a value is a
  constructor of \<open>error\<close>: the validation failure of a request (HTTP 422), the
  \<open>HTTPException\<close>s raised by hand (400, 403, 404), the Python exceptions
  \<open>ValueError\<close>, \<open>AttributeError\<close> and \<open>KeyError\<close>, and the storage
  layer's \<open>UnmappedInstanceError\<close>, \<open>IntegrityError\<close> and \<open>DataError\<close>.
  \<open>ResponseValidationError\<close> is Pydantic's error when a handler builds a response
  object from values its schema rejects; it is not a validation failure of the
  request.
\<close>

datatype error =
    ValidationError
  | HTTP_400
  | HTTP_403
  | HTTP_404
  | ValueError
  | AttributeError
  | KeyError
  | UnmappedInstanceError
  | ResponseValidationError
  | IntegrityError
  | DataError

text \<open>
  A Python \<open>str\<close> is a sequence of code points. The model reads a \<open>char\<close> as the
  code point with the same number (U+0000 to U+00FF), so \<open>length\<close> counts what
  Python's \<open>len\<close> counts. \<open>str.upper\<close> leaves that range at two code points
  (U+00B5 becomes U+039C, U+00FF becomes U+0178) and lengthens the string at one
  (U+00DF becomes \<open>SS\<close>), so its result is a list of code points as numbers.
\<close>

type_synonym codepoints = "nat list"

definition cps :: "string \<Rightarrow> codepoints" where
  "cps s = map of_char s"

text \<open>\<open>s.replace(c, "")\<close> for a one-character \<open>c\<close>.\<close>

definition str_remove :: "char \<Rightarrow> string \<Rightarrow> string" where
  "str_remove c s = filter (\<lambda>x. x \<noteq> c) s"

definition upper_cp :: "char \<Rightarrow> codepoints" where
  "upper_cp ch =
     (let c = (of_char ch :: nat) in
      if 97 \<le> c \<and> c \<le> 122 then [c - 32]
      else if c = 181 then [924]
      else if c = 223 then [83, 83]
      else if 224 \<le> c \<and> c \<le> 254 \<and> c \<noteq> 247 then [c - 32]
      else if c = 255 then [376]
      else [c])"

definition str_upper :: "string \<Rightarrow> codepoints" where
  "str_upper s = concat (map upper_cp s)"

definition lower_char :: "char \<Rightarrow> char" where
  "lower_char ch =
     (let c = (of_char ch :: nat) in
      if (65 \<le> c \<and> c \<le> 90) \<or> (192 \<le> c \<and> c \<le> 222 \<and> c \<noteq> 215)
      then char_of (c + 32) else ch)"

definition str_lower :: "string \<Rightarrow> string" where
  "str_lower s = map lower_char s"

text \<open>
  \<open>str.isdigit\<close> holds of the ten decimal digits and also of the superscript
  digits U+00B2, U+00B3 and U+00B9; it is false of the empty string.
  \<open>int(c)\<close> of a one-character string parses the decimal digits only and raises
  \<open>ValueError\<close> on anything else.
\<close>

definition isdigit_cp :: "nat \<Rightarrow> bool" where
  "isdigit_cp c = ((48 \<le> c \<and> c \<le> 57) \<or> c = 178 \<or> c = 179 \<or> c = 185)"

definition str_isdigit :: "codepoints \<Rightarrow> bool" where
  "str_isdigit s = (s \<noteq> [] \<and> list_all isdigit_cp s)"

definition int_of_cp :: "nat \<Rightarrow> error + int" where
  "int_of_cp c = (if 48 \<le> c \<and> c \<le> 57 then Inr (int c - 48) else Inl ValueError)"

text \<open>\<open>str(n)\<close> of an integer: its decimal digits, after a minus sign when negative.\<close>

function str_nat :: "nat \<Rightarrow> codepoints" where
  "str_nat n = (if n < 10 then [48 + n] else str_nat (n div 10) @ [48 + n mod 10])"
  by pat_completeness auto
termination
  by (relation "measure id") auto

declare str_nat.simps [simp del]

definition str_int :: "int \<Rightarrow> codepoints" where
  "str_int i = (if i < 0 then 45 # str_nat (nat (- i)) else str_nat (nat i))"

section \<open>Dates\<close>

text \<open>
  \<open>datetime.date\<close> with its three fields; Python orders dates by year, then month,
  then day. A \<open>datetime\<close> is a point on a clock, a \<open>time\<close> a time of day.
\<close>

record date =
  year :: int
  month :: int
  day :: int

definition date_less :: "date \<Rightarrow> date \<Rightarrow> bool" where
  "date_less a b =
     (year a < year b \<or> (year a = year b \<and>
        (month a < month b \<or> (month a = month b \<and> day a < day b))))"

definition date_le :: "date \<Rightarrow> date \<Rightarrow> bool" where
  "date_le a b = (date_less a b \<or> a = b)"

type_synonym datetime = nat
type_synonym time_of_day = nat

section \<open>utils/validators.py and utils/helpers.py\<close>

text \<open>The loop of \<open>validar_rut_chileno\<close> over \<open>reversed(rut_numeros)\<close>.\<close>

fun rut_loop :: "codepoints \<Rightarrow> int \<Rightarrow> int \<Rightarrow> error + int" where
  "rut_loop [] suma multiplo = Inr suma"
| "rut_loop (digito # resto) suma multiplo =
     (case int_of_cp digito of
        Inl e \<Rightarrow> Inl e
      | Inr v \<Rightarrow>
          (let suma' = suma + v * multiplo;
               multiplo' = multiplo + 1
           in rut_loop resto suma' (if multiplo' = 8 then 2 else multiplo')))"

definition validar_rut_chileno :: "string \<Rightarrow> error + bool" where
  "validar_rut_chileno rut0 =
     (let rut = str_upper (str_remove CHR ''-'' (str_remove CHR ''.'' rut0)) in
      if length rut < 8 then Inr False
      else
        (let rut_numeros = butlast rut;
             digito_verificador = [last rut]
         in if \<not> str_isdigit rut_numeros then Inr False
            else
              (case rut_loop (rev rut_numeros) 0 2 of
                 Inl e \<Rightarrow> Inl e
               | Inr suma \<Rightarrow>
                   (let resto = suma mod 11;
                        dv = 11 - resto;
                        dv_calculado =
                          (if dv = 11 then cps ''0''
                           else if dv = 10 then cps ''K''
                           else str_int dv)
                    in Inr (digito_verificador = dv_calculado)))))"

definition limpiar_rut :: "string \<Rightarrow> string" where
  "limpiar_rut rut = str_remove CHR ''-'' (str_remove CHR ''.'' rut)"

definition extraer_mes_anio :: "date \<Rightarrow> int \<times> int" where
  "extraer_mes_anio fecha = (month fecha, year fecha)"

text \<open>
  \<open>calcular_edad\<close> with both arguments given, as every exam handler calls it (the
  default \<open>fecha_referencia=None\<close>, replaced by \<open>date.today()\<close>, is only used by the
  patient autocomplete).
\<close>

definition calcular_edad :: "date \<Rightarrow> date \<Rightarrow> int" where
  "calcular_edad fecha_nacimiento fecha_referencia =
     (let edad = year fecha_referencia - year fecha_nacimiento
      in if month fecha_referencia < month fecha_nacimiento \<or>
            (month fecha_referencia = month fecha_nacimiento \<and>
             day fecha_referencia < day fecha_nacimiento)
         then edad - 1 else edad)"

section \<open>models/: the tables\<close>

text \<open>
  One record per mapped class, one field per column, in the order of the source. A
  column declared \<open>nullable=False\<close> (or a primary key) has the plain type; every
  other column is an \<open>option\<close>, \<open>None\<close> being SQL \<open>NULL\<close>. Field names carry the
  table's prefix, since several tables have columns of the same name.
\<close>

record paciente =
  pac_id :: int
  pac_rut :: string
  pac_nombre_completo :: string
  pac_fecha_nacimiento :: "date option"
  pac_created_at :: "datetime option"
  pac_updated_at :: "datetime option"

record usuario =
  usr_id :: int
  usr_rut :: string
  usr_nombre :: string
  usr_email :: string
  usr_celular :: "string option"
  usr_password_hash :: string
  usr_rol :: string
  usr_activo :: "bool option"
  usr_debe_cambiar_password :: "bool option"
  usr_created_at :: "datetime option"
  usr_updated_at :: "datetime option"

record examen_base =
  eb_id :: int
  eb_tipo_examen :: string
  eb_fecha_realizacion :: date
  eb_atencion :: string
  eb_prevision_id :: "int option"
  eb_procedencia_id :: "int option"
  eb_paciente_id :: int
  eb_examen_especifico_id :: int
  eb_codigo_mai_id :: "int option"
  eb_contrato :: "string option"
  eb_mes_realizacion :: int
  eb_anio_realizacion :: int
  eb_created_by :: "int option"
  eb_updated_by :: "int option"
  eb_created_at :: "datetime option"
  eb_updated_at :: "datetime option"
  eb_deleted_at :: "datetime option"
  eb_en_revision :: "bool option"
  eb_motivo_revision :: "string option"

record examen_tac =
  tac_id :: int
  tac_examen_base_id :: int
  tac_fecha_solicitud :: date
  tac_hora_realizacion :: time_of_day
  tac_fecha_nacimiento :: "date option"
  tac_edad :: "int option"
  tac_externo :: "string option"
  tac_protocolo_id :: "int option"
  tac_cod_acv :: bool
  tac_ges :: bool
  tac_medio_contraste :: bool
  tac_vfge :: "string option"
  tac_premedicado :: "bool option"
  tac_diagnostico_clinico_id :: "int option"
  tac_medico_solicitante_id :: "int option"
  tac_tm_id :: "int option"
  tac_tp_id :: "int option"
  tac_secretaria_id :: "int option"
  tac_observacion :: "string option"

record examen_rx =
  rx_id :: int
  rx_examen_base_id :: int
  rx_hora_realizacion :: time_of_day
  rx_tm_tp_id :: "int option"

record examen_eco =
  eco_id :: int
  eco_examen_base_id :: int
  eco_diagnostico_id :: "int option"
  eco_realizado_id :: "int option"
  eco_transcribe_id :: "int option"

text \<open>
  The committed state of the store: each table is the list of its rows in storage
  order. Of the catalogue tables only the primary keys matter here (they are the
  targets of foreign keys).
\<close>

record database =
  pacientes :: "paciente list"
  usuarios :: "usuario list"
  examenes_base :: "examen_base list"
  examenes_tac :: "examen_tac list"
  examenes_rx :: "examen_rx list"
  examenes_eco :: "examen_eco list"
  previsiones :: "int list"
  procedencias :: "int list"
  examenes_especificos :: "int list"
  codigos_mai :: "int list"
  protocolos_tac :: "int list"
  diagnosticos :: "int list"
  personal_medico :: "int list"

subsection \<open>What the storage layer does on insert and update\<close>

text \<open>
  The key of a new row is chosen by the storage layer and is not one in use. The
  model takes one more than the largest key of the table, which is fresh among the
  rows present; unlike a sequence it can hand out again the key of a row that was
  removed, so nothing below is stated about the value of a new key.
\<close>

definition fresh_id :: "int list \<Rightarrow> int" where
  "fresh_id ids = fold max ids 0 + 1"

definition fk_ok :: "int list \<Rightarrow> int option \<Rightarrow> bool" where
  "fk_ok ids v = (case v of None \<Rightarrow> True | Some i \<Rightarrow> i \<in> set ids)"

definition len_ok :: "nat \<Rightarrow> string option \<Rightarrow> bool" where
  "len_ok n v = (case v of None \<Rightarrow> True | Some s \<Rightarrow> length s \<le> n)"

text \<open>
  The declared constraints of a row, checked when the row is inserted or updated:
  a value longer than its \<open>String(n)\<close> column is a \<open>DataError\<close>; a violated
  \<open>CheckConstraint\<close>, \<open>ForeignKey\<close> or \<open>unique\<close> is an \<open>IntegrityError\<close>.
\<close>

definition paciente_row_check :: "database \<Rightarrow> paciente \<Rightarrow> error option" where
  "paciente_row_check db p =
     (if \<not> (length (pac_rut p) \<le> 12 \<and> length (pac_nombre_completo p) \<le> 200)
      then Some DataError
      else if list_ex (\<lambda>q. pac_id q \<noteq> pac_id p \<and> pac_rut q = pac_rut p) (pacientes db)
      then Some IntegrityError
      else None)"

definition base_row_check :: "database \<Rightarrow> examen_base \<Rightarrow> error option" where
  "base_row_check db e =
     (if \<not> (length (eb_tipo_examen e) \<le> 10 \<and> length (eb_atencion e) \<le> 20 \<and>
             len_ok 50 (eb_contrato e))
      then Some DataError
      else if \<not> (eb_tipo_examen e \<in> set [''TAC'', ''RX'', ''ECO''] \<and>
                  eb_atencion e \<in> set [''Abierta'', ''Cerrada'', ''Urgencia''] \<and>
                  1 \<le> eb_mes_realizacion e \<and> eb_mes_realizacion e \<le> 12 \<and>
                  fk_ok (previsiones db) (eb_prevision_id e) \<and>
                  fk_ok (procedencias db) (eb_procedencia_id e) \<and>
                  eb_paciente_id e \<in> set (map pac_id (pacientes db)) \<and>
                  eb_examen_especifico_id e \<in> set (examenes_especificos db) \<and>
                  fk_ok (codigos_mai db) (eb_codigo_mai_id e) \<and>
                  fk_ok (map usr_id (usuarios db)) (eb_created_by e) \<and>
                  fk_ok (map usr_id (usuarios db)) (eb_updated_by e))
      then Some IntegrityError
      else None)"

definition tac_row_check :: "database \<Rightarrow> examen_tac \<Rightarrow> error option" where
  "tac_row_check db t =
     (if \<not> (len_ok 50 (tac_externo t) \<and> len_ok 50 (tac_vfge t))
      then Some DataError
      else if \<not> (tac_examen_base_id t \<in> set (map eb_id (examenes_base db)) \<and>
                  \<not> list_ex (\<lambda>q. tac_id q \<noteq> tac_id t \<and>
                                  tac_examen_base_id q = tac_examen_base_id t)
                        (examenes_tac db) \<and>
                  fk_ok (protocolos_tac db) (tac_protocolo_id t) \<and>
                  fk_ok (diagnosticos db) (tac_diagnostico_clinico_id t) \<and>
                  fk_ok (personal_medico db) (tac_medico_solicitante_id t) \<and>
                  fk_ok (personal_medico db) (tac_tm_id t) \<and>
                  fk_ok (personal_medico db) (tac_tp_id t) \<and>
                  fk_ok (personal_medico db) (tac_secretaria_id t))
      then Some IntegrityError
      else None)"

text \<open>
  An \<open>UPDATE\<close> is issued for a loaded row only when some column changed; it then
  also stamps \<open>updated_at\<close> (the column's \<open>onupdate=datetime.utcnow\<close>).
\<close>

definition touch_usuario :: "datetime \<Rightarrow> usuario \<Rightarrow> usuario \<Rightarrow> usuario" where
  "touch_usuario now old new = (if new = old then old else new\<lparr>usr_updated_at := Some now\<rparr>)"

definition touch_base :: "datetime \<Rightarrow> examen_base \<Rightarrow> examen_base \<Rightarrow> examen_base" where
  "touch_base now old new = (if new = old then old else new\<lparr>eb_updated_at := Some now\<rparr>)"

section \<open>middleware/auth_middleware.py\<close>

text \<open>
  Both guards receive the user that \<open>get_current_user\<close> resolved from the token.
\<close>

definition require_admin :: "usuario \<Rightarrow> error + usuario" where
  "require_admin current_user =
     (if usr_rol current_user \<noteq> ''administrador'' then Inl HTTP_403 else Inr current_user)"

definition require_ingresador_o_admin :: "usuario \<Rightarrow> error + usuario" where
  "require_ingresador_o_admin current_user =
     (if usr_rol current_user \<notin> set [''ingresador'', ''administrador'']
      then Inl HTTP_403 else Inr current_user)"

section \<open>schemas/examen.py\<close>

text \<open>
  \<open>ExamenTACCreate\<close> inherits the fields of \<open>ExamenBaseData\<close> and of
  \<open>ExamenTACEspecifico\<close> (prefix \<open>c_\<close>). The record holds a request body whose
  values already have the annotated types.
\<close>

record ExamenTACCreate =
  c_tipo_examen :: string
  c_fecha_realizacion :: date
  c_atencion :: string
  c_prevision_id :: int
  c_procedencia_id :: int
  c_paciente_rut :: string
  c_paciente_nombre :: "string option"
  c_examen_especifico_id :: int
  c_codigo_mai_id :: int
  c_contrato :: string
  c_fecha_solicitud :: date
  c_hora_realizacion :: time_of_day
  c_fecha_nacimiento :: "date option"
  c_externo :: "string option"
  c_protocolo_id :: "int option"
  c_cod_acv :: bool
  c_ges :: bool
  c_medio_contraste :: bool
  c_vfge :: "string option"
  c_premedicado :: "bool option"
  c_diagnostico_clinico_id :: "int option"
  c_medico_solicitante_id :: "int option"
  c_tm_id :: "int option"
  c_tp_id :: "int option"
  c_secretaria_id :: "int option"
  c_observacion :: "string option"

text \<open>The \<open>Field\<close> constraints: the three patterns and the two \<open>max_length=50\<close>.\<close>

definition ExamenTACCreate_fields_ok :: "ExamenTACCreate \<Rightarrow> bool" where
  "ExamenTACCreate_fields_ok d =
     (c_tipo_examen d \<in> set [''TAC'', ''RX'', ''ECO''] \<and>
      c_atencion d \<in> set [''Abierta'', ''Cerrada'', ''Urgencia''] \<and>
      c_contrato d \<in> set [''Empresa Externa'', ''Institucional''] \<and>
      len_ok 50 (c_externo d) \<and>
      len_ok 50 (c_vfge d))"

text \<open>
  The model validator \<open>validar_tac\<close>. Its first argument is the attribute
  \<open>fecha_realizacion\<close> of \<open>self\<close> when \<open>hasattr\<close> finds one (it does on an
  \<open>ExamenTACCreate\<close>), and \<open>None\<close> otherwise. A \<open>ValueError\<close> raised inside a
  validator reaches the caller as Pydantic's \<open>ValidationError\<close>.
\<close>

definition validar_tac :: "date option \<Rightarrow> ExamenTACCreate \<Rightarrow> error + ExamenTACCreate" where
  "validar_tac attr_fecha_realizacion self =
     (if (case attr_fecha_realizacion of
            None \<Rightarrow> False
          | Some fecha_realizacion \<Rightarrow> date_less fecha_realizacion (c_fecha_solicitud self))
      then Inl ValidationError
      else if (case c_vfge self of
                 None \<Rightarrow> False
               | Some v \<Rightarrow> v \<noteq> [] \<and> str_lower v \<noteq> ''sin creatinina'' \<and>
                            c_premedicado self = None)
      then Inl ValidationError
      else Inr self)"

text \<open>Building an \<open>ExamenTACCreate\<close>: the fields first, then the model validator.\<close>

definition ExamenTACCreate_validate :: "ExamenTACCreate \<Rightarrow> error + ExamenTACCreate" where
  "ExamenTACCreate_validate d =
     (if \<not> ExamenTACCreate_fields_ok d then Inl ValidationError
      else validar_tac (Some (c_fecha_realizacion d)) d)"

record ExamenTACResponse =
  r_id :: int
  r_tipo_examen :: string
  r_fecha_realizacion :: date
  r_atencion :: string
  r_mes_realizacion :: int
  r_anio_realizacion :: int
  r_created_at :: datetime
  r_fecha_solicitud :: date
  r_hora_realizacion :: time_of_day
  r_edad :: "int option"
  r_cod_acv :: bool
  r_ges :: bool
  r_medio_contraste :: bool
  r_observacion :: "string option"

text \<open>
  The response built from a base row and its CT row. \<open>created_at\<close> is required by
  the response schema, so a row whose \<open>created_at\<close> is \<open>NULL\<close> makes the
  constructor raise.
\<close>

definition tac_response :: "examen_base \<Rightarrow> examen_tac \<Rightarrow> error + ExamenTACResponse" where
  "tac_response b t =
     (case eb_created_at b of
        None \<Rightarrow> Inl ResponseValidationError
      | Some creado \<Rightarrow>
          Inr \<lparr>r_id = eb_id b,
               r_tipo_examen = eb_tipo_examen b,
               r_fecha_realizacion = eb_fecha_realizacion b,
               r_atencion = eb_atencion b,
               r_mes_realizacion = eb_mes_realizacion b,
               r_anio_realizacion = eb_anio_realizacion b,
               r_created_at = creado,
               r_fecha_solicitud = tac_fecha_solicitud t,
               r_hora_realizacion = tac_hora_realizacion t,
               r_edad = tac_edad t,
               r_cod_acv = tac_cod_acv t,
               r_ges = tac_ges t,
               r_medio_contraste = tac_medio_contraste t,
               r_observacion = tac_observacion t\<rparr>)"

text \<open>\<open>ExamenRXResponse\<close> and \<open>ExamenECOResponse\<close>, built the same way.\<close>

record ExamenRXResponse =
  rxr_id :: int
  rxr_tipo_examen :: string
  rxr_fecha_realizacion :: date
  rxr_atencion :: string
  rxr_mes_realizacion :: int
  rxr_anio_realizacion :: int
  rxr_created_at :: datetime
  rxr_hora_realizacion :: time_of_day

definition rx_response :: "examen_base \<Rightarrow> examen_rx \<Rightarrow> error + ExamenRXResponse" where
  "rx_response b x =
     (case eb_created_at b of
        None \<Rightarrow> Inl ResponseValidationError
      | Some creado \<Rightarrow>
          Inr \<lparr>rxr_id = eb_id b,
               rxr_tipo_examen = eb_tipo_examen b,
               rxr_fecha_realizacion = eb_fecha_realizacion b,
               rxr_atencion = eb_atencion b,
               rxr_mes_realizacion = eb_mes_realizacion b,
               rxr_anio_realizacion = eb_anio_realizacion b,
               rxr_created_at = creado,
               rxr_hora_realizacion = rx_hora_realizacion x\<rparr>)"

record ExamenECOResponse =
  ecor_id :: int
  ecor_tipo_examen :: string
  ecor_fecha_realizacion :: date
  ecor_atencion :: string
  ecor_mes_realizacion :: int
  ecor_anio_realizacion :: int
  ecor_created_at :: datetime

definition eco_response :: "examen_base \<Rightarrow> examen_eco \<Rightarrow> error + ExamenECOResponse" where
  "eco_response b x =
     (case eb_created_at b of
        None \<Rightarrow> Inl ResponseValidationError
      | Some creado \<Rightarrow>
          Inr \<lparr>ecor_id = eb_id b,
               ecor_tipo_examen = eb_tipo_examen b,
               ecor_fecha_realizacion = eb_fecha_realizacion b,
               ecor_atencion = eb_atencion b,
               ecor_mes_realizacion = eb_mes_realizacion b,
               ecor_anio_realizacion = eb_anio_realizacion b,
               ecor_created_at = creado\<rparr>)"



section \<open>routers/examenes.py\<close>

subsection \<open>\<open>obtener_o_crear_paciente\<close>\<close>

text \<open>
  Every operation on the store takes the committed state and returns its outcome with
  the committed state it leaves; \<open>now\<close> is the clock reading \<open>datetime.utcnow()\<close>
  gives during the request. An exception before \<open>commit\<close> leaves the state as it was.
\<close>

definition obtener_o_crear_paciente ::
  "datetime \<Rightarrow> database \<Rightarrow> string \<Rightarrow> string option \<Rightarrow> date option
     \<Rightarrow> (error + paciente) \<times> database" where
  "obtener_o_crear_paciente now db rut nombre fecha_nac =
     (let rut_limpio = limpiar_rut rut in
      case validar_rut_chileno rut_limpio of
        Inl e \<Rightarrow> (Inl e, db)
      | Inr valido \<Rightarrow>
          if \<not> valido then (Inl HTTP_400, db)
          else
            (case find (\<lambda>p. pac_rut p = rut_limpio) (pacientes db) of
               Some paciente \<Rightarrow>
                 if fecha_nac \<noteq> None \<and> pac_fecha_nacimiento paciente = None
                 then
                   (let paciente' = paciente\<lparr>pac_fecha_nacimiento := fecha_nac,
                                               pac_updated_at := Some now\<rparr>
                    in (Inr paciente',
                        db\<lparr>pacientes :=
                             map (\<lambda>p. if pac_id p = pac_id paciente then paciente' else p)
                               (pacientes db)\<rparr>))
                 else (Inr paciente, db)
             | None \<Rightarrow>
                 (case nombre of
                    None \<Rightarrow> (Inl HTTP_400, db)
                  | Some n \<Rightarrow>
                      if n = [] then (Inl HTTP_400, db)
                      else
                        (let nuevo_paciente =
                               \<lparr>pac_id = fresh_id (map pac_id (pacientes db)),
                                pac_rut = rut_limpio,
                                pac_nombre_completo = n,
                                pac_fecha_nacimiento = fecha_nac,
                                pac_created_at = Some now,
                                pac_updated_at = Some now\<rparr>
                         in case paciente_row_check db nuevo_paciente of
                              Some e \<Rightarrow> (Inl e, db)
                            | None \<Rightarrow>
                                (Inr nuevo_paciente,
                                 db\<lparr>pacientes := pacientes db @ [nuevo_paciente]\<rparr>)))))"

subsection \<open>\<open>crear_examen_tac\<close>\<close>

text \<open>
  The guard runs first, then the body is validated, then the handler: the patient
  (committed by \<open>obtener_o_crear_paciente\<close> itself), the base row (flushed), the CT
  row, and one commit for both rows.
\<close>

definition crear_examen_tac ::
  "datetime \<Rightarrow> database \<Rightarrow> usuario \<Rightarrow> ExamenTACCreate
     \<Rightarrow> (error + ExamenTACResponse) \<times> database" where
  "crear_examen_tac now db current_user body =
     (case require_ingresador_o_admin current_user of
        Inl e \<Rightarrow> (Inl e, db)
      | Inr cu \<Rightarrow>
     (case ExamenTACCreate_validate body of
        Inl e \<Rightarrow> (Inl e, db)
      | Inr examen_data \<Rightarrow>
     (case obtener_o_crear_paciente now db (c_paciente_rut examen_data)
             (c_paciente_nombre examen_data) (c_fecha_nacimiento examen_data) of
        (Inl e, db1) \<Rightarrow> (Inl e, db1)
      | (Inr paciente, db1) \<Rightarrow>
          (let (mes, anio) = extraer_mes_anio (c_fecha_realizacion examen_data);
               edad = (case c_fecha_nacimiento examen_data of
                         None \<Rightarrow> None
                       | Some fn \<Rightarrow>
                           Some (calcular_edad fn (c_fecha_realizacion examen_data)));
               examen_base =
                 \<lparr>eb_id = fresh_id (map eb_id (examenes_base db1)),
                  eb_tipo_examen = ''TAC'',
                  eb_fecha_realizacion = c_fecha_realizacion examen_data,
                  eb_atencion = c_atencion examen_data,
                  eb_prevision_id = Some (c_prevision_id examen_data),
                  eb_procedencia_id = Some (c_procedencia_id examen_data),
                  eb_paciente_id = pac_id paciente,
                  eb_examen_especifico_id = c_examen_especifico_id examen_data,
                  eb_codigo_mai_id = Some (c_codigo_mai_id examen_data),
                  eb_contrato = Some (c_contrato examen_data),
                  eb_mes_realizacion = mes,
                  eb_anio_realizacion = anio,
                  eb_created_by = Some (usr_id cu),
                  eb_updated_by = Some (usr_id cu),
                  eb_created_at = Some now,
                  eb_updated_at = Some now,
                  eb_deleted_at = None,
                  eb_en_revision = Some False,
                  eb_motivo_revision = None\<rparr>
           in case base_row_check db1 examen_base of
                Some e \<Rightarrow> (Inl e, db1)
              | None \<Rightarrow>
                  (let db2 = db1\<lparr>examenes_base := examenes_base db1 @ [examen_base]\<rparr>;
                       examen_tac =
                         \<lparr>tac_id = fresh_id (map tac_id (examenes_tac db1)),
                          tac_examen_base_id = eb_id examen_base,
                          tac_fecha_solicitud = c_fecha_solicitud examen_data,
                          tac_hora_realizacion = c_hora_realizacion examen_data,
                          tac_fecha_nacimiento = c_fecha_nacimiento examen_data,
                          tac_edad = edad,
                          tac_externo = c_externo examen_data,
                          tac_protocolo_id = c_protocolo_id examen_data,
                          tac_cod_acv = c_cod_acv examen_data,
                          tac_ges = c_ges examen_data,
                          tac_medio_contraste = c_medio_contraste examen_data,
                          tac_vfge = c_vfge examen_data,
                          tac_premedicado = c_premedicado examen_data,
                          tac_diagnostico_clinico_id = c_diagnostico_clinico_id examen_data,
                          tac_medico_solicitante_id = c_medico_solicitante_id examen_data,
                          tac_tm_id = c_tm_id examen_data,
                          tac_tp_id = c_tp_id examen_data,
                          tac_secretaria_id = c_secretaria_id examen_data,
                          tac_observacion = c_observacion examen_data\<rparr>
                   in case tac_row_check db2 examen_tac of
                        Some e \<Rightarrow> (Inl e, db1)
                      | None \<Rightarrow>
                          (tac_response examen_base examen_tac,
                           db2\<lparr>examenes_tac := examenes_tac db2 @ [examen_tac]\<rparr>))))))"

subsection \<open>Reading CT exams\<close>

text \<open>
  The join of \<open>ExamenBase\<close> and \<open>ExamenTAC\<close> on
  \<open>ExamenBase.id == ExamenTAC.examen_base_id\<close>.
\<close>

definition join_base_tac :: "database \<Rightarrow> (examen_base \<times> examen_tac) list" where
  "join_base_tac db =
     concat (map (\<lambda>b. map (\<lambda>t. (b, t))
                           (filter (\<lambda>t. eb_id b = tac_examen_base_id t) (examenes_tac db)))
               (examenes_base db))"

text \<open>
  \<open>order_by(ExamenBase.fecha_realizacion.desc())\<close>. SQL leaves the order of rows
  with equal dates open; the model keeps them in the order of the join.
\<close>

fun insert_desc ::
  "examen_base \<times> 'a \<Rightarrow> (examen_base \<times> 'a) list \<Rightarrow> (examen_base \<times> 'a) list" where
  "insert_desc x [] = [x]"
| "insert_desc x (y # ys) =
     (if date_less (eb_fecha_realizacion (fst x)) (eb_fecha_realizacion (fst y))
      then y # insert_desc x ys else x # y # ys)"

definition order_by_fecha_desc ::
  "(examen_base \<times> 'a) list \<Rightarrow> (examen_base \<times> 'a) list" where
  "order_by_fecha_desc rows = foldr insert_desc rows []"

text \<open>The loop that appends one response per row; the first failure ends it.\<close>

fun responses :: "(examen_base \<times> examen_tac) list \<Rightarrow> error + ExamenTACResponse list" where
  "responses [] = Inr []"
| "responses ((b, t) # rest) =
     (case tac_response b t of
        Inl e \<Rightarrow> Inl e
      | Inr r \<Rightarrow> (case responses rest of Inl e \<Rightarrow> Inl e | Inr rs \<Rightarrow> Inr (r # rs)))"

text \<open>
  \<open>listar_examenes_tac\<close>. The \<open>Query\<close> bounds (\<open>skip \<ge> 0\<close>, \<open>1 \<le> limit \<le> 1000\<close>,
  \<open>1 \<le> mes \<le> 12\<close>) are checked before the handler. A Python \<open>if x:\<close> on an
  optional integer or string also skips \<open>0\<close> and the empty string.
\<close>

definition listar_examenes_tac ::
  "database \<Rightarrow> usuario \<Rightarrow> int \<Rightarrow> int \<Rightarrow> date option \<Rightarrow> date option \<Rightarrow> string option
     \<Rightarrow> int option \<Rightarrow> int option \<Rightarrow> error + ExamenTACResponse list" where
  "listar_examenes_tac db current_user skip limit fecha_inicio fecha_fin paciente_rut mes anio =
     (case require_ingresador_o_admin current_user of
        Inl e \<Rightarrow> Inl e
      | Inr cu \<Rightarrow>
          if \<not> (0 \<le> skip \<and> 1 \<le> limit \<and> limit \<le> 1000 \<and>
                 (case mes of None \<Rightarrow> True | Some m \<Rightarrow> 1 \<le> m \<and> m \<le> 12))
          then Inl ValidationError
          else
            (let q0 = filter (\<lambda>(b, t). eb_tipo_examen b = ''TAC'' \<and> eb_deleted_at b = None)
                        (join_base_tac db);
                 q1 = (case fecha_inicio of
                         None \<Rightarrow> q0
                       | Some fi \<Rightarrow> filter (\<lambda>(b, t). date_le fi (eb_fecha_realizacion b)) q0);
                 q2 = (case fecha_fin of
                         None \<Rightarrow> q1
                       | Some ff \<Rightarrow> filter (\<lambda>(b, t). date_le (eb_fecha_realizacion b) ff) q1);
                 q3 = (case paciente_rut of
                         None \<Rightarrow> Some q2
                       | Some r \<Rightarrow>
                           if r = [] then Some q2
                           else
                             (case find (\<lambda>p. pac_rut p = limpiar_rut r) (pacientes db) of
                                Some paciente \<Rightarrow>
                                  Some (filter (\<lambda>(b, t). eb_paciente_id b = pac_id paciente) q2)
                              | None \<Rightarrow> None))
             in case q3 of
                  None \<Rightarrow> Inr []
                | Some q3' \<Rightarrow>
                    (let q4 = (case mes of
                                 None \<Rightarrow> q3'
                               | Some m \<Rightarrow>
                                   if m = 0 then q3'
                                   else filter (\<lambda>(b, t). eb_mes_realizacion b = m) q3');
                         q5 = (case anio of
                                 None \<Rightarrow> q4
                               | Some a \<Rightarrow>
                                   if a = 0 then q4
                                   else filter (\<lambda>(b, t). eb_anio_realizacion b = a) q4);
                         resultados = take (nat limit) (drop (nat skip) (order_by_fecha_desc q5))
                     in responses resultados)))"

definition obtener_examen_tac ::
  "database \<Rightarrow> usuario \<Rightarrow> int \<Rightarrow> error + ExamenTACResponse" where
  "obtener_examen_tac db current_user examen_id =
     (case require_ingresador_o_admin current_user of
        Inl e \<Rightarrow> Inl e
      | Inr cu \<Rightarrow>
          (case find (\<lambda>(b, t). eb_id b = examen_id \<and> eb_tipo_examen b = ''TAC'' \<and>
                                eb_deleted_at b = None)
                  (join_base_tac db) of
             None \<Rightarrow> Inl HTTP_404
           | Some (examen_base, examen_tac) \<Rightarrow> tac_response examen_base examen_tac))"

subsection \<open>\<open>eliminar_examen_tac\<close>\<close>

text \<open>An \<open>UPDATE ... WHERE id = k\<close> of the base table.\<close>

definition update_base_row :: "examen_base \<Rightarrow> database \<Rightarrow> database" where
  "update_base_row b' db =
     db\<lparr>examenes_base := map (\<lambda>b. if eb_id b = eb_id b' then b' else b) (examenes_base db)\<rparr>"

definition eliminar_examen_tac ::
  "datetime \<Rightarrow> database \<Rightarrow> usuario \<Rightarrow> int \<Rightarrow> (error + unit) \<times> database" where
  "eliminar_examen_tac now db current_user examen_id =
     (case require_admin current_user of
        Inl e \<Rightarrow> (Inl e, db)
      | Inr cu \<Rightarrow>
          (case find (\<lambda>b. eb_id b = examen_id \<and> eb_tipo_examen b = ''TAC'' \<and>
                           eb_deleted_at b = None)
                  (examenes_base db) of
             None \<Rightarrow> (Inl HTTP_404, db)
           | Some examen_base \<Rightarrow>
               (let examen_base' =
                      touch_base now examen_base
                        (examen_base\<lparr>eb_deleted_at := Some now,
                                     eb_updated_by := Some (usr_id cu)\<rparr>)
                in case base_row_check db examen_base' of
                     Some e \<Rightarrow> (Inl e, db)
                   | None \<Rightarrow> (Inr (), update_base_row examen_base' db))))"

subsection \<open>\<open>actualizar_examen_tac\<close>\<close>














subsection \<open>The X-ray and ultrasound handlers\<close>

text \<open>
  \<open>listar_examenes_rx\<close>, \<open>obtener_examen_rx\<close> and \<open>eliminar_examen_rx\<close>, and
  their \<open>_eco\<close> counterparts, are the CT handlers with the other type string,
  specialization table and response schema.
\<close>

definition join_base_rx :: "database \<Rightarrow> (examen_base \<times> examen_rx) list" where
  "join_base_rx db =
     concat (map (\<lambda>b. map (\<lambda>t. (b, t))
                           (filter (\<lambda>t. eb_id b = rx_examen_base_id t) (examenes_rx db)))
               (examenes_base db))"

fun responses_rx :: "(examen_base \<times> examen_rx) list \<Rightarrow> error + ExamenRXResponse list" where
  "responses_rx [] = Inr []"
| "responses_rx ((b, t) # rest) =
     (case rx_response b t of
        Inl e \<Rightarrow> Inl e
      | Inr r \<Rightarrow> (case responses_rx rest of Inl e \<Rightarrow> Inl e | Inr rs \<Rightarrow> Inr (r # rs)))"

definition listar_examenes_rx ::
  "database \<Rightarrow> usuario \<Rightarrow> int \<Rightarrow> int \<Rightarrow> date option \<Rightarrow> date option \<Rightarrow> string option
     \<Rightarrow> int option \<Rightarrow> int option \<Rightarrow> error + ExamenRXResponse list" where
  "listar_examenes_rx db current_user skip limit fecha_inicio fecha_fin paciente_rut mes anio =
     (case require_ingresador_o_admin current_user of
        Inl e \<Rightarrow> Inl e
      | Inr cu \<Rightarrow>
          if \<not> (0 \<le> skip \<and> 1 \<le> limit \<and> limit \<le> 1000 \<and>
                 (case mes of None \<Rightarrow> True | Some m \<Rightarrow> 1 \<le> m \<and> m \<le> 12))
          then Inl ValidationError
          else
            (let q0 = filter (\<lambda>(b, t). eb_tipo_examen b = ''RX'' \<and> eb_deleted_at b = None)
                        (join_base_rx db);
                 q1 = (case fecha_inicio of
                         None \<Rightarrow> q0
                       | Some fi \<Rightarrow> filter (\<lambda>(b, t). date_le fi (eb_fecha_realizacion b)) q0);
                 q2 = (case fecha_fin of
                         None \<Rightarrow> q1
                       | Some ff \<Rightarrow> filter (\<lambda>(b, t). date_le (eb_fecha_realizacion b) ff) q1);
                 q3 = (case paciente_rut of
                         None \<Rightarrow> Some q2
                       | Some r \<Rightarrow>
                           if r = [] then Some q2
                           else
                             (case find (\<lambda>p. pac_rut p = limpiar_rut r) (pacientes db) of
                                Some paciente \<Rightarrow>
                                  Some (filter (\<lambda>(b, t). eb_paciente_id b = pac_id paciente) q2)
                              | None \<Rightarrow> None))
             in case q3 of
                  None \<Rightarrow> Inr []
                | Some q3' \<Rightarrow>
                    (let q4 = (case mes of
                                 None \<Rightarrow> q3'
                               | Some m \<Rightarrow>
                                   if m = 0 then q3'
                                   else filter (\<lambda>(b, t). eb_mes_realizacion b = m) q3');
                         q5 = (case anio of
                                 None \<Rightarrow> q4
                               | Some a \<Rightarrow>
                                   if a = 0 then q4
                                   else filter (\<lambda>(b, t). eb_anio_realizacion b = a) q4);
                         resultados = take (nat limit) (drop (nat skip) (order_by_fecha_desc q5))
                     in responses_rx resultados)))"

definition obtener_examen_rx ::
  "database \<Rightarrow> usuario \<Rightarrow> int \<Rightarrow> error + ExamenRXResponse" where
  "obtener_examen_rx db current_user examen_id =
     (case require_ingresador_o_admin current_user of
        Inl e \<Rightarrow> Inl e
      | Inr cu \<Rightarrow>
          (case find (\<lambda>(b, t). eb_id b = examen_id \<and> eb_tipo_examen b = ''RX'' \<and>
                                eb_deleted_at b = None)
                  (join_base_rx db) of
             None \<Rightarrow> Inl HTTP_404
           | Some (examen_base, examen_rx) \<Rightarrow> rx_response examen_base examen_rx))"

definition eliminar_examen_rx ::
  "datetime \<Rightarrow> database \<Rightarrow> usuario \<Rightarrow> int \<Rightarrow> (error + unit) \<times> database" where
  "eliminar_examen_rx now db current_user examen_id =
     (case require_admin current_user of
        Inl e \<Rightarrow> (Inl e, db)
      | Inr cu \<Rightarrow>
          (case find (\<lambda>b. eb_id b = examen_id \<and> eb_tipo_examen b = ''RX'' \<and>
                           eb_deleted_at b = None)
                  (examenes_base db) of
             None \<Rightarrow> (Inl HTTP_404, db)
           | Some examen_base \<Rightarrow>
               (let examen_base' =
                      touch_base now examen_base
                        (examen_base\<lparr>eb_deleted_at := Some now,
                                     eb_updated_by := Some (usr_id cu)\<rparr>)
                in case base_row_check db examen_base' of
                     Some e \<Rightarrow> (Inl e, db)
                   | None \<Rightarrow> (Inr (), update_base_row examen_base' db))))"

definition join_base_eco :: "database \<Rightarrow> (examen_base \<times> examen_eco) list" where
  "join_base_eco db =
     concat (map (\<lambda>b. map (\<lambda>t. (b, t))
                           (filter (\<lambda>t. eb_id b = eco_examen_base_id t) (examenes_eco db)))
               (examenes_base db))"

fun responses_eco :: "(examen_base \<times> examen_eco) list \<Rightarrow> error + ExamenECOResponse list" where
  "responses_eco [] = Inr []"
| "responses_eco ((b, t) # rest) =
     (case eco_response b t of
        Inl e \<Rightarrow> Inl e
      | Inr r \<Rightarrow> (case responses_eco rest of Inl e \<Rightarrow> Inl e | Inr rs \<Rightarrow> Inr (r # rs)))"

definition listar_examenes_eco ::
  "database \<Rightarrow> usuario \<Rightarrow> int \<Rightarrow> int \<Rightarrow> date option \<Rightarrow> date option \<Rightarrow> string option
     \<Rightarrow> int option \<Rightarrow> int option \<Rightarrow> error + ExamenECOResponse list" where
  "listar_examenes_eco db current_user skip limit fecha_inicio fecha_fin paciente_rut mes anio =
     (case require_ingresador_o_admin current_user of
        Inl e \<Rightarrow> Inl e
      | Inr cu \<Rightarrow>
          if \<not> (0 \<le> skip \<and> 1 \<le> limit \<and> limit \<le> 1000 \<and>
                 (case mes of None \<Rightarrow> True | Some m \<Rightarrow> 1 \<le> m \<and> m \<le> 12))
          then Inl ValidationError
          else
            (let q0 = filter (\<lambda>(b, t). eb_tipo_examen b = ''ECO'' \<and> eb_deleted_at b = None)
                        (join_base_eco db);
                 q1 = (case fecha_inicio of
                         None \<Rightarrow> q0
                       | Some fi \<Rightarrow> filter (\<lambda>(b, t). date_le fi (eb_fecha_realizacion b)) q0);
                 q2 = (case fecha_fin of
                         None \<Rightarrow> q1
                       | Some ff \<Rightarrow> filter (\<lambda>(b, t). date_le (eb_fecha_realizacion b) ff) q1);
                 q3 = (case paciente_rut of
                         None \<Rightarrow> Some q2
                       | Some r \<Rightarrow>
                           if r = [] then Some q2
                           else
                             (case find (\<lambda>p. pac_rut p = limpiar_rut r) (pacientes db) of
                                Some paciente \<Rightarrow>
                                  Some (filter (\<lambda>(b, t). eb_paciente_id b = pac_id paciente) q2)
                              | None \<Rightarrow> None))
             in case q3 of
                  None \<Rightarrow> Inr []
                | Some q3' \<Rightarrow>
                    (let q4 = (case mes of
                                 None \<Rightarrow> q3'
                               | Some m \<Rightarrow>
                                   if m = 0 then q3'
                                   else filter (\<lambda>(b, t). eb_mes_realizacion b = m) q3');
                         q5 = (case anio of
                                 None \<Rightarrow> q4
                               | Some a \<Rightarrow>
                                   if a = 0 then q4
                                   else filter (\<lambda>(b, t). eb_anio_realizacion b = a) q4);
                         resultados = take (nat limit) (drop (nat skip) (order_by_fecha_desc q5))
                     in responses_eco resultados)))"

definition obtener_examen_eco ::
  "database \<Rightarrow> usuario \<Rightarrow> int \<Rightarrow> error + ExamenECOResponse" where
  "obtener_examen_eco db current_user examen_id =
     (case require_ingresador_o_admin current_user of
        Inl e \<Rightarrow> Inl e
      | Inr cu \<Rightarrow>
          (case find (\<lambda>(b, t). eb_id b = examen_id \<and> eb_tipo_examen b = ''ECO'' \<and>
                                eb_deleted_at b = None)
                  (join_base_eco db) of
             None \<Rightarrow> Inl HTTP_404
           | Some (examen_base, examen_eco) \<Rightarrow> eco_response examen_base examen_eco))"

definition eliminar_examen_eco ::
  "datetime \<Rightarrow> database \<Rightarrow> usuario \<Rightarrow> int \<Rightarrow> (error + unit) \<times> database" where
  "eliminar_examen_eco now db current_user examen_id =
     (case require_admin current_user of
        Inl e \<Rightarrow> (Inl e, db)
      | Inr cu \<Rightarrow>
          (case find (\<lambda>b. eb_id b = examen_id \<and> eb_tipo_examen b = ''ECO'' \<and>
                           eb_deleted_at b = None)
                  (examenes_base db) of
             None \<Rightarrow> (Inl HTTP_404, db)
           | Some examen_base \<Rightarrow>
               (let examen_base' =
                      touch_base now examen_base
                        (examen_base\<lparr>eb_deleted_at := Some now,
                                     eb_updated_by := Some (usr_id cu)\<rparr>)
                in case base_row_check db examen_base' of
                     Some e \<Rightarrow> (Inl e, db)
                   | None \<Rightarrow> (Inr (), update_base_row examen_base' db))))"

text \<open>
  The three delete routes \<open>/tac/{examen_id}\<close>, \<open>/rx/{examen_id}\<close> and
  \<open>/eco/{examen_id}\<close> as one operation that takes the exam type.
\<close>

datatype tipo_ruta = TAC | RX | ECO

fun tipo_examen_de :: "tipo_ruta \<Rightarrow> string" where
  "tipo_examen_de TAC = ''TAC''"
| "tipo_examen_de RX = ''RX''"
| "tipo_examen_de ECO = ''ECO''"

fun eliminar_examen ::
  "tipo_ruta \<Rightarrow> datetime \<Rightarrow> database \<Rightarrow> usuario \<Rightarrow> int \<Rightarrow> (error + unit) \<times> database" where
  "eliminar_examen TAC = eliminar_examen_tac"
| "eliminar_examen RX = eliminar_examen_rx"
| "eliminar_examen ECO = eliminar_examen_eco"

section \<open>routers/reportes.py\<close>

text \<open>
  The grouped query of \<open>examenes_por_periodo\<close>: one row \<open>(mes_realizacion, total)\<close>
  for each month that occurs among the filtered rows, in ascending order.
\<close>

definition group_by_mes :: "examen_base list \<Rightarrow> (int \<times> int) list" where
  "group_by_mes rows =
     map (\<lambda>m. (m, int (length (filter (\<lambda>e. eb_mes_realizacion e = m) rows))))
       (sort (remdups (map eb_mes_realizacion rows)))"

record reporte_periodo =
  rp_labels :: "string list"
  rp_data :: "int list"
  rp_anio :: int
  rp_tipo_examen :: string

text \<open>The dictionary \<open>datos\<close> and the loop that fills it.\<close>

definition datos_inicial :: "int \<rightharpoonup> int" where
  "datos_inicial = map_of (map (\<lambda>mes. (mes, 0)) [1..12])"

fun llenar_datos :: "(int \<times> int) list \<Rightarrow> (int \<rightharpoonup> int) \<Rightarrow> (int \<rightharpoonup> int)" where
  "llenar_datos [] datos = datos"
| "llenar_datos ((mes, n) # resto) datos = llenar_datos resto (datos(mes \<mapsto> n))"

text \<open>\<open>[datos[mes] for mes in range(1, 13)]\<close>; a missing key raises \<open>KeyError\<close>.\<close>

fun leer_datos :: "(int \<rightharpoonup> int) \<Rightarrow> int list \<Rightarrow> error + int list" where
  "leer_datos datos [] = Inr []"
| "leer_datos datos (mes # resto) =
     (case datos mes of
        None \<Rightarrow> Inl KeyError
      | Some v \<Rightarrow> (case leer_datos datos resto of Inl e \<Rightarrow> Inl e | Inr vs \<Rightarrow> Inr (v # vs)))"

definition examenes_por_periodo ::
  "database \<Rightarrow> usuario \<Rightarrow> int \<Rightarrow> string option \<Rightarrow> string \<Rightarrow> error + reporte_periodo" where
  "examenes_por_periodo db current_user anio tipo_examen agrupar_por =
     (if \<not> ((case tipo_examen of None \<Rightarrow> True | Some t \<Rightarrow> t \<in> set [''TAC'', ''RX'', ''ECO'']) \<and>
             agrupar_por \<in> set [''mes'', ''semana''])
      then Inl ValidationError
      else
        (let query = filter (\<lambda>e. eb_anio_realizacion e = anio \<and> eb_deleted_at e = None)
                       (examenes_base db);
             query' = (case tipo_examen of
                         None \<Rightarrow> query
                       | Some t \<Rightarrow>
                           if t = [] then query
                           else filter (\<lambda>e. eb_tipo_examen e = t) query);
             resultados = group_by_mes query';
             meses = [''Ene'', ''Feb'', ''Mar'', ''Abr'', ''May'', ''Jun'',
                      ''Jul'', ''Ago'', ''Sep'', ''Oct'', ''Nov'', ''Dic''];
             datos = llenar_datos resultados datos_inicial
         in case leer_datos datos [1..12] of
              Inl e \<Rightarrow> Inl e
            | Inr valores \<Rightarrow>
                Inr \<lparr>rp_labels = meses,
                     rp_data = valores,
                     rp_anio = anio,
                     rp_tipo_examen =
                       (case tipo_examen of
                          None \<Rightarrow> ''Todos''
                        | Some t \<Rightarrow> if t = [] then ''Todos'' else t)\<rparr>))"

section \<open>routers/pacientes.py\<close>

text \<open>
  \<open>db.delete(paciente)\<close>: the relationship \<open>Paciente.examenes\<close> is declared with
  \<open>cascade="all, delete-orphan"\<close>, so the session deletes the patient's base rows with
  it, and with each base row its specialization row (\<open>ExamenBase.examen_tac\<close>,
  \<open>examen_rx\<close> and \<open>examen_eco\<close> carry the same cascade).
\<close>

definition delete_paciente :: "paciente \<Rightarrow> database \<Rightarrow> database" where
  "delete_paciente paciente db =
     (let borrados = map eb_id (filter (\<lambda>b. eb_paciente_id b = pac_id paciente)
                                   (examenes_base db))
      in db\<lparr>pacientes := filter (\<lambda>p. pac_id p \<noteq> pac_id paciente) (pacientes db),
            examenes_base :=
              filter (\<lambda>b. eb_paciente_id b \<noteq> pac_id paciente) (examenes_base db),
            examenes_tac :=
              filter (\<lambda>t. tac_examen_base_id t \<notin> set borrados) (examenes_tac db),
            examenes_rx :=
              filter (\<lambda>x. rx_examen_base_id x \<notin> set borrados) (examenes_rx db),
            examenes_eco :=
              filter (\<lambda>x. eco_examen_base_id x \<notin> set borrados) (examenes_eco db)\<rparr>)"

definition eliminar_paciente ::
  "database \<Rightarrow> usuario \<Rightarrow> int \<Rightarrow> (error + unit) \<times> database" where
  "eliminar_paciente db current_user paciente_id =
     (if usr_rol current_user \<noteq> ''administrador'' then (Inl HTTP_403, db)
      else
        (case find (\<lambda>p. pac_id p = paciente_id) (pacientes db) of
           None \<Rightarrow> (Inl HTTP_404, db)
         | Some paciente \<Rightarrow> (Inr (), delete_paciente paciente db)))"

section \<open>routers/usuarios.py\<close>

text \<open>
  \<open>db.delete(usuario)\<close>: the relationships \<open>examenes_creados\<close> and
  \<open>examenes_modificados\<close> have no delete cascade, so the session first writes
  \<open>NULL\<close> into \<open>created_by\<close> and \<open>updated_by\<close> of the base rows that name the user
  (each such \<open>UPDATE\<close> stamps \<open>updated_at\<close>), then deletes the user's row.
\<close>

definition desasociar :: "datetime \<Rightarrow> int \<Rightarrow> examen_base \<Rightarrow> examen_base" where
  "desasociar now uid b =
     touch_base now b
       (b\<lparr>eb_created_by := (if eb_created_by b = Some uid then None else eb_created_by b),
          eb_updated_by := (if eb_updated_by b = Some uid then None else eb_updated_by b)\<rparr>)"

definition delete_usuario :: "datetime \<Rightarrow> usuario \<Rightarrow> database \<Rightarrow> database" where
  "delete_usuario now usuario db =
     db\<lparr>usuarios := filter (\<lambda>u. usr_id u \<noteq> usr_id usuario) (usuarios db),
        examenes_base := map (desasociar now (usr_id usuario)) (examenes_base db)\<rparr>"

text \<open>\<open>not x\<close> on a nullable boolean column.\<close>

definition py_not :: "bool option \<Rightarrow> bool" where
  "py_not v = (case v of None \<Rightarrow> True | Some b \<Rightarrow> \<not> b)"

definition toggle_usuario ::
  "datetime \<Rightarrow> database \<Rightarrow> usuario \<Rightarrow> int \<Rightarrow> (error + usuario) \<times> database" where
  "toggle_usuario now db current_user usuario_id =
     (case require_admin current_user of
        Inl e \<Rightarrow> (Inl e, db)
      | Inr cu \<Rightarrow>
          (case find (\<lambda>u. usr_id u = usuario_id) (usuarios db) of
             None \<Rightarrow> (Inl HTTP_404, db)
           | Some usuario \<Rightarrow>
               if usr_id usuario = usr_id cu then (Inl HTTP_400, db)
               else
                 (let usuario' =
                        touch_usuario now usuario
                          (usuario\<lparr>usr_activo := Some (py_not (usr_activo usuario))\<rparr>)
                  in (Inr usuario',
                      db\<lparr>usuarios :=
                           map (\<lambda>u. if usr_id u = usr_id usuario then usuario' else u)
                             (usuarios db)\<rparr>))))"

text \<open>
  The bulk \<open>update({"deleted_at": datetime.utcnow()})\<close> of \<open>eliminar_usuario\<close>: it
  writes every base row created by the user, deleted before or not.
\<close>

definition soft_delete_creados :: "datetime \<Rightarrow> int \<Rightarrow> database \<Rightarrow> database" where
  "soft_delete_creados now uid db =
     db\<lparr>examenes_base :=
          map (\<lambda>b. if eb_created_by b = Some uid
                    then b\<lparr>eb_deleted_at := Some now, eb_updated_at := Some now\<rparr> else b)
            (examenes_base db)\<rparr>"

definition eliminar_usuario ::
  "datetime \<Rightarrow> database \<Rightarrow> usuario \<Rightarrow> int \<Rightarrow> bool \<Rightarrow> (error + unit) \<times> database" where
  "eliminar_usuario now db current_user usuario_id eliminar_examenes =
     (case require_admin current_user of
        Inl e \<Rightarrow> (Inl e, db)
      | Inr cu \<Rightarrow>
          (case find (\<lambda>u. usr_id u = usuario_id) (usuarios db) of
             None \<Rightarrow> (Inl HTTP_404, db)
           | Some usuario \<Rightarrow>
               if usr_id usuario = usr_id cu then (Inl HTTP_400, db)
               else
                 (let examenes_count =
                        length (filter (\<lambda>b. eb_created_by b = Some usuario_id)
                                  (examenes_base db))
                  in if examenes_count > 0 \<and> \<not> eliminar_examenes then (Inl HTTP_400, db)
                     else
                       (let db1 = (if eliminar_examenes
                                   then soft_delete_creados now usuario_id db else db)
                        in (Inr (), delete_usuario now usuario db1)))))"

text \<open>
  \<open>eliminar_mi_cuenta\<close>. \<open>verify_password\<close> lives in \<open>utils/security.py\<close>, which is
  not among the sources; the model takes it as a parameter. The query parameter
  \<open>password\<close> has \<open>min_length=6\<close>.
\<close>

definition eliminar_mi_cuenta ::
  "(string \<Rightarrow> string \<Rightarrow> bool) \<Rightarrow> datetime \<Rightarrow> database \<Rightarrow> usuario \<Rightarrow> string
     \<Rightarrow> (error + unit) \<times> database" where
  "eliminar_mi_cuenta verify_password now db current_user password =
     (if length password < 6 then (Inl ValidationError, db)
      else if \<not> verify_password password (usr_password_hash current_user)
      then (Inl HTTP_400, db)
      else
        (let examenes_count =
               length (filter (\<lambda>b. eb_created_by b = Some (usr_id current_user))
                         (examenes_base db))
         in if examenes_count > 0 then (Inl HTTP_400, db)
            else (Inr (), delete_usuario now current_user db)))"

section \<open>A small store for concrete runs\<close>

text \<open>
  An administrator, a data-entry user, one patient without a birth date and one CT
  exam of that patient, with the catalogue rows the exam refers to.
\<close>

definition ej_admin :: usuario where
  "ej_admin =
     \<lparr>usr_id = 1, usr_rut = ''111111111'', usr_nombre = ''Ana'', usr_email = ''ana@h.cl'',
      usr_celular = None, usr_password_hash = ''h1'', usr_rol = ''administrador'',
      usr_activo = Some True, usr_debe_cambiar_password = Some False,
      usr_created_at = Some 1, usr_updated_at = Some 1\<rparr>"

definition ej_ingresador :: usuario where
  "ej_ingresador =
     \<lparr>usr_id = 2, usr_rut = ''222222222'', usr_nombre = ''Luis'', usr_email = ''luis@h.cl'',
      usr_celular = None, usr_password_hash = ''h2'', usr_rol = ''ingresador'',
      usr_activo = Some True, usr_debe_cambiar_password = Some False,
      usr_created_at = Some 2, usr_updated_at = Some 2\<rparr>"

definition ej_nuevo :: usuario where
  "ej_nuevo =
     \<lparr>usr_id = 3, usr_rut = ''333333333'', usr_nombre = ''Eva'', usr_email = ''eva@h.cl'',
      usr_celular = None, usr_password_hash = ''h3'', usr_rol = ''ingresador'',
      usr_activo = Some True, usr_debe_cambiar_password = Some True,
      usr_created_at = Some 3, usr_updated_at = Some 3\<rparr>"

definition ej_paciente :: paciente where
  "ej_paciente =
     \<lparr>pac_id = 1, pac_rut = ''123456785'', pac_nombre_completo = ''Juan Soto'',
      pac_fecha_nacimiento = None, pac_created_at = Some 4, pac_updated_at = Some 4\<rparr>"

definition ej_base :: examen_base where
  "ej_base =
     \<lparr>eb_id = 1, eb_tipo_examen = ''TAC'',
      eb_fecha_realizacion = \<lparr>year = 2024, month = 6, day = 15\<rparr>,
      eb_atencion = ''Abierta'', eb_prevision_id = Some 1, eb_procedencia_id = Some 1,
      eb_paciente_id = 1, eb_examen_especifico_id = 1, eb_codigo_mai_id = Some 1,
      eb_contrato = Some ''Institucional'', eb_mes_realizacion = 6,
      eb_anio_realizacion = 2024, eb_created_by = Some 2, eb_updated_by = Some 2,
      eb_created_at = Some 5, eb_updated_at = Some 5, eb_deleted_at = None,
      eb_en_revision = Some False, eb_motivo_revision = None\<rparr>"

definition ej_tac :: examen_tac where
  "ej_tac =
     \<lparr>tac_id = 1, tac_examen_base_id = 1,
      tac_fecha_solicitud = \<lparr>year = 2024, month = 6, day = 10\<rparr>,
      tac_hora_realizacion = 600, tac_fecha_nacimiento = None, tac_edad = None,
      tac_externo = None, tac_protocolo_id = Some 1, tac_cod_acv = False, tac_ges = False,
      tac_medio_contraste = True, tac_vfge = None, tac_premedicado = None,
      tac_diagnostico_clinico_id = None, tac_medico_solicitante_id = Some 1,
      tac_tm_id = None, tac_tp_id = None, tac_secretaria_id = None,
      tac_observacion = None\<rparr>"

definition ej_db :: database where
  "ej_db =
     \<lparr>pacientes = [ej_paciente], usuarios = [ej_admin, ej_ingresador, ej_nuevo],
      examenes_base = [ej_base], examenes_tac = [ej_tac], examenes_rx = [],
      examenes_eco = [], previsiones = [1], procedencias = [1],
      examenes_especificos = [1], codigos_mai = [1], protocolos_tac = [1],
      diagnosticos = [1], personal_medico = [1]\<rparr>"

text \<open>
  The same store with an X-ray exam and an ultrasound exam of the same patient added.
\<close>

definition ej_base_rx :: examen_base where
  "ej_base_rx = ej_base\<lparr>eb_id := 2, eb_tipo_examen := ''RX''\<rparr>"

definition ej_base_eco :: examen_base where
  "ej_base_eco = ej_base\<lparr>eb_id := 3, eb_tipo_examen := ''ECO''\<rparr>"

definition ej_rx :: examen_rx where
  "ej_rx = \<lparr>rx_id = 1, rx_examen_base_id = 2, rx_hora_realizacion = 700, rx_tm_tp_id = None\<rparr>"

definition ej_eco :: examen_eco where
  "ej_eco =
     \<lparr>eco_id = 1, eco_examen_base_id = 3, eco_diagnostico_id = None,
      eco_realizado_id = None, eco_transcribe_id = None\<rparr>"

definition ej_db3 :: database where
  "ej_db3 =
     ej_db\<lparr>examenes_base := [ej_base, ej_base_rx, ej_base_eco],
           examenes_rx := [ej_rx], examenes_eco := [ej_eco]\<rparr>"

text \<open>A registration body for a new patient, born 2000-06-15, examined 2024-06-14.\<close>

definition ej_body :: ExamenTACCreate where
  "ej_body =
     \<lparr>c_tipo_examen = ''TAC'',
      c_fecha_realizacion = \<lparr>year = 2024, month = 6, day = 14\<rparr>,
      c_atencion = ''Urgencia'', c_prevision_id = 1, c_procedencia_id = 1,
      c_paciente_rut = ''11.111.111-1'', c_paciente_nombre = Some ''Rosa Paz'',
      c_examen_especifico_id = 1, c_codigo_mai_id = 1, c_contrato = ''Institucional'',
      c_fecha_solicitud = \<lparr>year = 2024, month = 6, day = 14\<rparr>,
      c_hora_realizacion = 900,
      c_fecha_nacimiento = Some \<lparr>year = 2000, month = 6, day = 15\<rparr>,
      c_externo = None, c_protocolo_id = None, c_cod_acv = False, c_ges = False,
      c_medio_contraste = False, c_vfge = Some ''Sin Creatinina'', c_premedicado = None,
      c_diagnostico_clinico_id = None, c_medico_solicitante_id = None, c_tm_id = None,
      c_tp_id = None, c_secretaria_id = None, c_observacion = None\<rparr>"



text \<open>
  A stand-in for \<open>verify_password\<close> in concrete runs: the password \<open>secreto\<close>
  matches the hash \<open>h3\<close> and nothing else matches.
\<close>

definition ej_verify_password :: "string \<Rightarrow> string \<Rightarrow> bool" where
  "ej_verify_password password hashed = (password = ''secreto'' \<and> hashed = ''h3'')"

section \<open>The check digit as the specification words it\<close>

text \<open>
  The reference algorithm of the specification: the digits are taken right to left,
  the digit at position \<open>k\<close> (from 0) is multiplied by the \<open>k\<close>-th weight of the cycle
  2, 3, 4, 5, 6, 7, 2, \<dots>, and the products are summed; the check is 11 minus the sum
  modulo 11, written \<open>0\<close> for 11, \<open>K\<close> for 10 and as the digit otherwise.
\<close>

definition es_decimal :: "nat \<Rightarrow> bool" where
  "es_decimal c = (48 \<le> c \<and> c \<le> 57)"

definition valor :: "nat \<Rightarrow> int" where
  "valor c = int c - 48"

fun suma_ponderada :: "nat \<Rightarrow> int list \<Rightarrow> int" where
  "suma_ponderada k [] = 0"
| "suma_ponderada k (d # ds) = d * (2 + int (k mod 6)) + suma_ponderada (Suc k) ds"

definition digito_referencia :: "int list \<Rightarrow> codepoints" where
  "digito_referencia derecha_a_izquierda =
     (let c = 11 - suma_ponderada 0 derecha_a_izquierda mod 11
      in if c = 11 then cps ''0'' else if c = 10 then cps ''K'' else [48 + nat c])"

section \<open>The check digit\<close>

text \<open>
  C1. The validator is meant to be total, answering true or false on every
  string. On the nine-character string \<open>1234567\<close>, superscript two (U+00B2),
  \<open>5\<close> it is not: \<open>isdigit\<close> lets the superscript digit through and \<open>int\<close> then
  raises \<open>ValueError\<close>.
\<close>

theorem validar_rut_chileno_superscript_raises:
  "validar_rut_chileno (''1234567'' @ [CHR 0xB2] @ ''5'') = Inl ValueError"
  by (simp add: validar_rut_chileno_def str_upper_def upper_cp_def str_remove_def
      str_isdigit_def isdigit_cp_def int_of_cp_def)

text \<open>
  Apart from that failure the validator is the reference algorithm. With \<open>rut\<close> the
  cleaned and upper-cased input: it raises exactly when \<open>rut\<close> has at least 8
  characters and its numeric part passes \<open>isdigit\<close> with a superscript digit in it;
  otherwise it answers, and the answer is true exactly when \<open>rut\<close> has at least 8
  characters, its numeric part is all decimal digits and its last character is the
  reference check digit.
\<close>

lemma rut_loop_referencia:
  "list_all es_decimal xs \<Longrightarrow> multiplo = 2 + int (k mod 6) \<Longrightarrow>
   rut_loop xs suma multiplo = Inr (suma + suma_ponderada k (map valor xs))"
proof (induction xs arbitrary: suma multiplo k)
  case Nil
  then show ?case by simp
next
  case (Cons x xs)
  from Cons.prems have dx: "es_decimal x" and rest: "list_all es_decimal xs" by simp_all
  have v: "int_of_cp x = Inr (valor x)"
    using dx by (simp add: int_of_cp_def es_decimal_def valor_def)
  have next_m: "(if multiplo + 1 = 8 then 2 else multiplo + 1) = 2 + int (Suc k mod 6)"
    using Cons.prems(2) by (auto simp: mod_Suc)
  have "rut_loop (x # xs) suma multiplo =
          rut_loop xs (suma + valor x * multiplo) (if multiplo + 1 = 8 then 2 else multiplo + 1)"
    by (simp add: v Let_def)
  also have "\<dots> = Inr (suma + valor x * multiplo + suma_ponderada (Suc k) (map valor xs))"
    by (rule Cons.IH[OF rest next_m])
  finally show ?case using Cons.prems(2) by simp
qed

lemma rut_loop_ValueError:
  "list_all isdigit_cp xs \<Longrightarrow> \<not> list_all es_decimal xs \<Longrightarrow>
   rut_loop xs suma multiplo = Inl ValueError"
proof (induction xs arbitrary: suma multiplo)
  case Nil
  then show ?case by simp
next
  case (Cons x xs)
  show ?case
  proof (cases "es_decimal x")
    case True
    then have v: "int_of_cp x = Inr (valor x)"
      by (simp add: int_of_cp_def es_decimal_def valor_def)
    from Cons.prems True have "list_all isdigit_cp xs" "\<not> list_all es_decimal xs" by simp_all
    from Cons.IH[OF this] show ?thesis by (simp add: v Let_def)
  next
    case False
    then have "int_of_cp x = Inl ValueError"
      by (simp add: int_of_cp_def es_decimal_def)
    then show ?thesis by simp
  qed
qed

lemma es_decimal_isdigit: "list_all es_decimal xs \<Longrightarrow> list_all isdigit_cp xs"
  by (induction xs) (auto simp: es_decimal_def isdigit_cp_def)

lemma str_int_digito: "0 \<le> c \<Longrightarrow> c < 10 \<Longrightarrow> str_int c = [48 + nat c]"
  by (simp add: str_int_def str_nat.simps)

lemma validar_rut_chileno_referencia:
  assumes rut_def: "rut = str_upper (limpiar_rut rut0)"
  shows "validar_rut_chileno rut0 =
     (if 8 \<le> length rut \<and> list_all isdigit_cp (butlast rut) \<and>
         \<not> list_all es_decimal (butlast rut)
      then Inl ValueError
      else Inr (8 \<le> length rut \<and> list_all es_decimal (butlast rut) \<and>
                [last rut] = digito_referencia (map valor (rev (butlast rut)))))"
proof -
  have r: "str_upper (str_remove CHR ''-'' (str_remove CHR ''.'' rut0)) = rut"
    by (simp add: rut_def limpiar_rut_def)
  show ?thesis
  proof (cases "length rut < 8")
    case True
    then show ?thesis by (simp add: validar_rut_chileno_def r)
  next
    case False
    then have ne: "butlast rut \<noteq> []" by (cases rut) auto
    show ?thesis
    proof (cases "list_all isdigit_cp (butlast rut)")
      case nd: False
      then have "\<not> list_all es_decimal (butlast rut)" using es_decimal_isdigit by blast
      with nd False show ?thesis
        by (simp add: validar_rut_chileno_def r str_isdigit_def)
    next
      case dig: True
      show ?thesis
      proof (cases "list_all es_decimal (butlast rut)")
        case dec: False
        have "list_all isdigit_cp (rev (butlast rut))" "\<not> list_all es_decimal (rev (butlast rut))"
          using dig dec by (simp_all add: list_all_iff)
        from rut_loop_ValueError[OF this]
        have "rut_loop (rev (butlast rut)) 0 2 = Inl ValueError" .
        with False dig dec ne show ?thesis
          by (simp add: validar_rut_chileno_def r str_isdigit_def)
      next
        case dec: True
        then have "list_all es_decimal (rev (butlast rut))" by (simp add: list_all_iff)
        from rut_loop_referencia[OF this, of 2 0 0]
        have loop: "rut_loop (rev (butlast rut)) 0 2 =
                      Inr (suma_ponderada 0 (map valor (rev (butlast rut))))"
          by (simp add: rev_map)
        let ?s = "suma_ponderada 0 (map valor (rev (butlast rut)))"
        have rng: "0 \<le> ?s mod 11" "?s mod 11 < 11" by simp_all
        have dv: "(if 11 - ?s mod 11 = 11 then cps ''0''
                   else if 11 - ?s mod 11 = 10 then cps ''K''
                   else str_int (11 - ?s mod 11)) =
                  digito_referencia (map valor (rev (butlast rut)))"
          using rng str_int_digito[of "11 - ?s mod 11"]
          by (auto simp: digito_referencia_def Let_def)
        from False dig dec ne loop dv show ?thesis
          by (simp add: validar_rut_chileno_def r str_isdigit_def Let_def)
      qed
    qed
  qed
qed

section \<open>Registering a CT exam\<close>

lemma obtener_o_crear_paciente_frame:
  assumes "obtener_o_crear_paciente now db rut nombre fn = (r, db1)"
  shows "db1 = db\<lparr>pacientes := pacientes db1\<rparr>"
  using assms
  by (auto simp: obtener_o_crear_paciente_def Let_def
      split: sum.splits if_splits option.splits)

lemma tac_response_Inr:
  "tac_response b t = Inr resp \<Longrightarrow> r_edad resp = tac_edad t \<and> r_id resp = eb_id b"
  by (auto simp: tac_response_def split: option.splits)

lemma ExamenTACCreate_validate_Inr: "ExamenTACCreate_validate body = Inr d \<Longrightarrow> d = body"
  by (auto simp: ExamenTACCreate_validate_def validar_tac_def split: if_splits)

lemma crear_examen_tac_fila:
  assumes "crear_examen_tac now db cu body = (Inr resp, db')"
  shows "\<exists>t. examenes_tac db' = examenes_tac db @ [t] \<and> tac_examen_base_id t = r_id resp \<and>
             r_edad resp = tac_edad t \<and>
             tac_edad t = (case c_fecha_nacimiento body of None \<Rightarrow> None
                           | Some b \<Rightarrow> Some (calcular_edad b (c_fecha_realizacion body)))"
proof -
  from assms obtain cu' where g: "require_ingresador_o_admin cu = Inr cu'"
    by (auto simp: crear_examen_tac_def split: sum.splits)
  from assms g obtain d where v: "ExamenTACCreate_validate body = Inr d"
    by (auto simp: crear_examen_tac_def split: sum.splits)
  have d: "d = body" using v by (rule ExamenTACCreate_validate_Inr)
  from assms g v obtain p db1 where
    o: "obtener_o_crear_paciente now db (c_paciente_rut d) (c_paciente_nombre d)
          (c_fecha_nacimiento d) = (Inr p, db1)"
    by (auto simp: crear_examen_tac_def split: sum.splits prod.splits)
  have "examenes_tac db1 = examenes_tac (db\<lparr>pacientes := pacientes db1\<rparr>)"
    using obtener_o_crear_paciente_frame[OF o] by simp
  then have fr: "examenes_tac db1 = examenes_tac db" by simp
  show ?thesis
    using assms g v o fr d
    by (auto simp: crear_examen_tac_def Let_def extraer_mes_anio_def
        split: sum.splits prod.splits option.splits dest!: tac_response_Inr)
qed

lemma ej_crear_corre:
  "\<exists>resp db'. crear_examen_tac 100 ej_db ej_ingresador ej_body = (Inr resp, db')"
proof -
  have "(case crear_examen_tac 100 ej_db ej_ingresador ej_body of
           (Inr resp, db') \<Rightarrow> True | _ \<Rightarrow> False)"
    by code_simp
  then show ?thesis by (auto split: prod.splits sum.splits)
qed

lemma str_lower_ejemplos:
  "str_lower ''Sin Creatinina'' = ''sin creatinina''"
  "str_lower ''SIN CREATININA'' = ''sin creatinina''"
  "str_lower ''12.5'' = ''12.5''"
  by code_simp+

text \<open>
  C2. A registration by a permitted caller whose request date is strictly later than
  the realization date ends with \<open>ValidationError\<close> and leaves the store as it was.
  When the two dates are equal the date rule does not fire: the validator answers as
  it does on an object without a realization date, where the rule is skipped.
\<close>

theorem crear_examen_tac_fecha_solicitud:
  assumes "usr_rol cu \<in> set [''ingresador'', ''administrador'']"
  shows "(date_less (c_fecha_realizacion body) (c_fecha_solicitud body) \<longrightarrow>
            crear_examen_tac now db cu body = (Inl ValidationError, db)) \<and>
         (c_fecha_solicitud body = c_fecha_realizacion body \<longrightarrow>
            validar_tac (Some (c_fecha_realizacion body)) body = validar_tac None body)"
proof -
  have g: "require_ingresador_o_admin cu = Inr cu"
    using assms by (simp add: require_ingresador_o_admin_def)
  have a: "date_less (c_fecha_realizacion body) (c_fecha_solicitud body) \<longrightarrow>
            crear_examen_tac now db cu body = (Inl ValidationError, db)"
    by (simp add: crear_examen_tac_def g ExamenTACCreate_validate_def validar_tac_def)
  have b: "c_fecha_solicitud body = c_fecha_realizacion body \<longrightarrow>
            validar_tac (Some (c_fecha_realizacion body)) body = validar_tac None body"
    by (simp add: validar_tac_def date_less_def)
  from a b show ?thesis by blast
qed

theorem crear_examen_tac_fecha_solicitud_witness:
  "crear_examen_tac 100 ej_db ej_ingresador
     (ej_body\<lparr>c_fecha_solicitud := \<lparr>year = 2024, month = 6, day = 15\<rparr>\<rparr>) =
     (Inl ValidationError, ej_db) \<and>
   validar_tac (Some (c_fecha_realizacion ej_body)) ej_body = validar_tac None ej_body \<and>
   (\<exists>resp db'. crear_examen_tac 100 ej_db ej_ingresador ej_body = (Inr resp, db'))"
proof -
  let ?tarde = "ej_body\<lparr>c_fecha_solicitud := \<lparr>year = 2024, month = 6, day = 15\<rparr>\<rparr>"
  have r: "usr_rol ej_ingresador \<in> set [''ingresador'', ''administrador'']"
    by (simp add: ej_ingresador_def)
  have l: "date_less (c_fecha_realizacion ?tarde) (c_fecha_solicitud ?tarde)"
    by (simp add: ej_body_def date_less_def)
  have e: "c_fecha_solicitud ej_body = c_fecha_realizacion ej_body"
    by (simp add: ej_body_def)
  from crear_examen_tac_fecha_solicitud[OF r, of ?tarde 100 ej_db] l
  have 1: "crear_examen_tac 100 ej_db ej_ingresador ?tarde = (Inl ValidationError, ej_db)"
    by blast
  from crear_examen_tac_fecha_solicitud[OF r, of ej_body 100 ej_db] e
  have 2: "validar_tac (Some (c_fecha_realizacion ej_body)) ej_body = validar_tac None ej_body"
    by blast
  from 1 2 ej_crear_corre show ?thesis by blast
qed

text \<open>
  C3. A registration by a permitted caller whose \<open>vfge\<close> is a non-empty string that
  does not lower-case to \<open>sin creatinina\<close>, with \<open>premedicado\<close> null, ends with
  \<open>ValidationError\<close>; nothing asks whether the string is a number. When \<open>vfge\<close> is
  absent or lower-cases to the sentinel, a null \<open>premedicado\<close> does not make the
  validator fail: only the date rule decides.
\<close>

theorem crear_examen_tac_vfge_premedicado:
  assumes "usr_rol cu \<in> set [''ingresador'', ''administrador'']"
  shows "(c_vfge body = Some v \<and> v \<noteq> [] \<and> str_lower v \<noteq> ''sin creatinina'' \<and>
          c_premedicado body = None \<longrightarrow>
            crear_examen_tac now db cu body = (Inl ValidationError, db)) \<and>
         ((c_vfge body = None \<or>
           (\<exists>w. c_vfge body = Some w \<and> str_lower w = ''sin creatinina'')) \<and>
          c_premedicado body = None \<longrightarrow>
            validar_tac a body =
              (if (case a of
                     None \<Rightarrow> False
                   | Some fecha_realizacion \<Rightarrow>
                       date_less fecha_realizacion (c_fecha_solicitud body))
               then Inl ValidationError else Inr body))"
proof -
  have g: "require_ingresador_o_admin cu = Inr cu"
    using assms by (simp add: require_ingresador_o_admin_def)
  have a: "c_vfge body = Some v \<and> v \<noteq> [] \<and> str_lower v \<noteq> ''sin creatinina'' \<and>
          c_premedicado body = None \<longrightarrow>
            crear_examen_tac now db cu body = (Inl ValidationError, db)"
    by (simp add: crear_examen_tac_def g ExamenTACCreate_validate_def validar_tac_def)
  have b: "(c_vfge body = None \<or>
            (\<exists>w. c_vfge body = Some w \<and> str_lower w = ''sin creatinina'')) \<and>
          c_premedicado body = None \<longrightarrow>
            validar_tac a body =
              (if (case a of
                     None \<Rightarrow> False
                   | Some fecha_realizacion \<Rightarrow>
                       date_less fecha_realizacion (c_fecha_solicitud body))
               then Inl ValidationError else Inr body)"
    by (auto simp: validar_tac_def)
  from a b show ?thesis by blast
qed

theorem crear_examen_tac_vfge_premedicado_witness:
  "crear_examen_tac 100 ej_db ej_ingresador (ej_body\<lparr>c_vfge := Some ''12.5''\<rparr>) =
     (Inl ValidationError, ej_db) \<and>
   validar_tac (Some (c_fecha_realizacion ej_body)) ej_body = Inr ej_body \<and>
   validar_tac (Some (c_fecha_realizacion ej_body)) (ej_body\<lparr>c_vfge := None\<rparr>) =
     Inr (ej_body\<lparr>c_vfge := None\<rparr>) \<and>
   validar_tac (Some (c_fecha_realizacion ej_body))
     (ej_body\<lparr>c_vfge := Some ''SIN CREATININA''\<rparr>) =
     Inr (ej_body\<lparr>c_vfge := Some ''SIN CREATININA''\<rparr>) \<and>
   c_vfge ej_body = Some ''Sin Creatinina'' \<and> c_premedicado ej_body = None \<and>
   (\<exists>resp db'. crear_examen_tac 100 ej_db ej_ingresador ej_body = (Inr resp, db'))"
proof -
  let ?a = "Some (c_fecha_realizacion ej_body)"
  have r: "usr_rol ej_ingresador \<in> set [''ingresador'', ''administrador'']"
    by (simp add: ej_ingresador_def)
  have h1: "c_vfge (ej_body\<lparr>c_vfge := Some ''12.5''\<rparr>) = Some ''12.5'' \<and> ''12.5'' \<noteq> [] \<and>
            str_lower ''12.5'' \<noteq> ''sin creatinina'' \<and>
            c_premedicado (ej_body\<lparr>c_vfge := Some ''12.5''\<rparr>) = None"
    by (simp add: ej_body_def str_lower_ejemplos)
  have 1: "crear_examen_tac 100 ej_db ej_ingresador (ej_body\<lparr>c_vfge := Some ''12.5''\<rparr>) =
             (Inl ValidationError, ej_db)"
    using crear_examen_tac_vfge_premedicado[OF r, of "ej_body\<lparr>c_vfge := Some ''12.5''\<rparr>"
        "''12.5''" 100 ej_db] h1 by blast
  have nd: "\<not> date_less (c_fecha_realizacion ej_body) (c_fecha_solicitud ej_body)"
    by (simp add: ej_body_def date_less_def)
  have h2: "(c_vfge ej_body = None \<or>
             (\<exists>w. c_vfge ej_body = Some w \<and> str_lower w = ''sin creatinina'')) \<and>
            c_premedicado ej_body = None"
    by (simp add: ej_body_def str_lower_ejemplos)
  have 2: "validar_tac ?a ej_body = Inr ej_body"
    using crear_examen_tac_vfge_premedicado[OF r, of ej_body _ _ _ ?a] h2 nd by simp
  let ?n = "ej_body\<lparr>c_vfge := None\<rparr>"
  have h3: "(c_vfge ?n = None \<or> (\<exists>w. c_vfge ?n = Some w \<and> str_lower w = ''sin creatinina'')) \<and>
            c_premedicado ?n = None"
    by (simp add: ej_body_def)
  have 3: "validar_tac ?a ?n = Inr ?n"
    using crear_examen_tac_vfge_premedicado[OF r, of ?n _ _ _ ?a] h3 nd by simp
  let ?m = "ej_body\<lparr>c_vfge := Some ''SIN CREATININA''\<rparr>"
  have h4: "(c_vfge ?m = None \<or> (\<exists>w. c_vfge ?m = Some w \<and> str_lower w = ''sin creatinina'')) \<and>
            c_premedicado ?m = None"
    by (simp add: ej_body_def str_lower_ejemplos)
  have 4: "validar_tac ?a ?m = Inr ?m"
    using crear_examen_tac_vfge_premedicado[OF r, of ?m _ _ _ ?a] h4 nd by simp
  have 5: "c_vfge ej_body = Some ''Sin Creatinina'' \<and> c_premedicado ej_body = None"
    by (simp add: ej_body_def)
  from 1 2 3 4 5 ej_crear_corre show ?thesis by blast
qed

text \<open>
  C4. The age \<open>calcular_edad\<close> derives is the difference of the years, less one
  exactly when the reference month is earlier than the birth month, or the months are
  equal and the reference day is earlier than the birth day; a birth on 2000-06-15
  gives 23 on 2024-06-14 and 24 on 2024-06-15 and on 2024-06-16. A successful CT
  registration appends one CT row, whose \<open>edad\<close> is that age at the realization date
  when the body carries a birth date and \<open>NULL\<close> when it does not; the response
  reports the same value.
\<close>

theorem crear_examen_tac_edad:
  "calcular_edad b r =
     year r - year b -
       (if month r < month b \<or> (month r = month b \<and> day r < day b) then 1 else 0) \<and>
   calcular_edad \<lparr>year = 2000, month = 6, day = 15\<rparr> \<lparr>year = 2024, month = 6, day = 14\<rparr> = 23 \<and>
   calcular_edad \<lparr>year = 2000, month = 6, day = 15\<rparr> \<lparr>year = 2024, month = 6, day = 15\<rparr> = 24 \<and>
   calcular_edad \<lparr>year = 2000, month = 6, day = 15\<rparr> \<lparr>year = 2024, month = 6, day = 16\<rparr> = 24 \<and>
   (crear_examen_tac now db cu body = (Inr resp, db') \<longrightarrow>
      (\<exists>t. examenes_tac db' = examenes_tac db @ [t] \<and>
           tac_examen_base_id t = r_id resp \<and>
           r_edad resp = tac_edad t \<and>
           tac_edad t =
             (case c_fecha_nacimiento body of
                None \<Rightarrow> None
              | Some nac \<Rightarrow>
                  (let f = c_fecha_realizacion body
                   in Some (year f - year nac -
                        (if month f < month nac \<or> (month f = month nac \<and> day f < day nac)
                         then 1 else 0))))))"
proof -
  have formula: "\<And>b r. calcular_edad b r =
     year r - year b -
       (if month r < month b \<or> (month r = month b \<and> day r < day b) then 1 else 0)"
    by (simp add: calcular_edad_def Let_def)
  have ex:
    "calcular_edad \<lparr>year = 2000, month = 6, day = 15\<rparr> \<lparr>year = 2024, month = 6, day = 14\<rparr> = 23"
    "calcular_edad \<lparr>year = 2000, month = 6, day = 15\<rparr> \<lparr>year = 2024, month = 6, day = 15\<rparr> = 24"
    "calcular_edad \<lparr>year = 2000, month = 6, day = 15\<rparr> \<lparr>year = 2024, month = 6, day = 16\<rparr> = 24"
    by (simp_all add: calcular_edad_def)
  have stored: "crear_examen_tac now db cu body = (Inr resp, db') \<longrightarrow>
      (\<exists>t. examenes_tac db' = examenes_tac db @ [t] \<and>
           tac_examen_base_id t = r_id resp \<and>
           r_edad resp = tac_edad t \<and>
           tac_edad t =
             (case c_fecha_nacimiento body of
                None \<Rightarrow> None
              | Some nac \<Rightarrow>
                  (let f = c_fecha_realizacion body
                   in Some (year f - year nac -
                        (if month f < month nac \<or> (month f = month nac \<and> day f < day nac)
                         then 1 else 0)))))"
  proof
    assume run: "crear_examen_tac now db cu body = (Inr resp, db')"
    from crear_examen_tac_fila[OF run] obtain t where
      t: "examenes_tac db' = examenes_tac db @ [t]" "tac_examen_base_id t = r_id resp"
         "r_edad resp = tac_edad t"
         "tac_edad t = (case c_fecha_nacimiento body of None \<Rightarrow> None
                           | Some b \<Rightarrow> Some (calcular_edad b (c_fecha_realizacion body)))"
      by blast
    have "tac_edad t =
             (case c_fecha_nacimiento body of
                None \<Rightarrow> None
              | Some nac \<Rightarrow>
                  (let f = c_fecha_realizacion body
                   in Some (year f - year nac -
                        (if month f < month nac \<or> (month f = month nac \<and> day f < day nac)
                         then 1 else 0))))"
      using t(4) by (simp add: formula Let_def split: option.splits)
    with t(1-3) show "\<exists>t. examenes_tac db' = examenes_tac db @ [t] \<and>
           tac_examen_base_id t = r_id resp \<and>
           r_edad resp = tac_edad t \<and>
           tac_edad t =
             (case c_fecha_nacimiento body of
                None \<Rightarrow> None
              | Some nac \<Rightarrow>
                  (let f = c_fecha_realizacion body
                   in Some (year f - year nac -
                        (if month f < month nac \<or> (month f = month nac \<and> day f < day nac)
                         then 1 else 0))))"
      by blast
  qed
  show ?thesis using formula ex stored by blast
qed

theorem crear_examen_tac_edad_witness:
  "(\<exists>resp db' t. crear_examen_tac 100 ej_db ej_ingresador ej_body = (Inr resp, db') \<and>
      examenes_tac db' = examenes_tac ej_db @ [t] \<and> tac_examen_base_id t = r_id resp \<and>
      tac_edad t = Some 23 \<and> r_edad resp = Some 23) \<and>
   (\<exists>resp db' t. crear_examen_tac 100 ej_db ej_ingresador
                    (ej_body\<lparr>c_fecha_nacimiento := None\<rparr>) = (Inr resp, db') \<and>
      examenes_tac db' = examenes_tac ej_db @ [t] \<and> tac_examen_base_id t = r_id resp \<and>
      tac_edad t = None \<and> r_edad resp = None)"
proof -
  obtain resp db' where run: "crear_examen_tac 100 ej_db ej_ingresador ej_body = (Inr resp, db')"
    using ej_crear_corre by blast
  have "\<exists>t. examenes_tac db' = examenes_tac ej_db @ [t] \<and>
           tac_examen_base_id t = r_id resp \<and>
           r_edad resp = tac_edad t \<and>
           tac_edad t =
             (case c_fecha_nacimiento ej_body of
                None \<Rightarrow> None
              | Some nac \<Rightarrow>
                  (let f = c_fecha_realizacion ej_body
                   in Some (year f - year nac -
                        (if month f < month nac \<or> (month f = month nac \<and> day f < day nac)
                         then 1 else 0))))"
    using crear_examen_tac_edad[of _ _ 100 ej_db ej_ingresador ej_body resp db'] run by blast
  then obtain t where t: "examenes_tac db' = examenes_tac ej_db @ [t]"
      "tac_examen_base_id t = r_id resp" "r_edad resp = tac_edad t"
      "tac_edad t = Some 23"
    by (auto simp: ej_body_def)
  with run have A: "\<exists>resp db' t. crear_examen_tac 100 ej_db ej_ingresador ej_body =
        (Inr resp, db') \<and>
      examenes_tac db' = examenes_tac ej_db @ [t] \<and> tac_examen_base_id t = r_id resp \<and>
      tac_edad t = Some 23 \<and> r_edad resp = Some 23" by auto
  let ?sin = "ej_body\<lparr>c_fecha_nacimiento := None\<rparr>"
  have "(case crear_examen_tac 100 ej_db ej_ingresador ?sin of
           (Inr resp, db') \<Rightarrow> True | _ \<Rightarrow> False)"
    by code_simp
  then obtain resp2 db2 where
    run2: "crear_examen_tac 100 ej_db ej_ingresador ?sin = (Inr resp2, db2)"
    by (auto split: prod.splits sum.splits)
  have "\<exists>t. examenes_tac db2 = examenes_tac ej_db @ [t] \<and>
           tac_examen_base_id t = r_id resp2 \<and>
           r_edad resp2 = tac_edad t \<and>
           tac_edad t =
             (case c_fecha_nacimiento ?sin of
                None \<Rightarrow> None
              | Some nac \<Rightarrow>
                  (let f = c_fecha_realizacion ?sin
                   in Some (year f - year nac -
                        (if month f < month nac \<or> (month f = month nac \<and> day f < day nac)
                         then 1 else 0))))"
    using crear_examen_tac_edad[of _ _ 100 ej_db ej_ingresador ?sin resp2 db2] run2 by blast
  then obtain t2 where t2: "examenes_tac db2 = examenes_tac ej_db @ [t2]"
      "tac_examen_base_id t2 = r_id resp2" "r_edad resp2 = tac_edad t2"
      "tac_edad t2 = None"
    by auto
  with run2 have B: "\<exists>resp db' t. crear_examen_tac 100 ej_db ej_ingresador ?sin =
        (Inr resp, db') \<and>
      examenes_tac db' = examenes_tac ej_db @ [t] \<and> tac_examen_base_id t = r_id resp \<and>
      tac_edad t = None \<and> r_edad resp = None" by auto
  from A B show ?thesis by blast
qed

section \<open>The monthly report\<close>

lemma llenar_datos_lookup:
  "distinct (map fst rs) \<Longrightarrow>
   llenar_datos rs datos k = (case map_of rs k of Some v \<Rightarrow> Some v | None \<Rightarrow> datos k)"
proof (induction rs arbitrary: datos)
  case Nil
  then show ?case by simp
next
  case (Cons r rs)
  obtain mes n where r: "r = (mes, n)" by (cases r)
  from Cons.prems r have nin: "mes \<notin> fst ` set rs" and d: "distinct (map fst rs)" by auto
  have "map_of rs mes = None" using nin by (simp add: map_of_eq_None_iff)
  then have nk: "k = mes \<Longrightarrow> map_of rs k = None" by simp
  have "llenar_datos (r # rs) datos k = llenar_datos rs (datos(mes \<mapsto> n)) k"
    by (simp add: r)
  also have "\<dots> = (case map_of rs k of Some v \<Rightarrow> Some v | None \<Rightarrow> (datos(mes \<mapsto> n)) k)"
    by (rule Cons.IH[OF d])
  also have "\<dots> = (case map_of (r # rs) k of Some v \<Rightarrow> Some v | None \<Rightarrow> datos k)"
    using nk by (cases "k = mes") (auto simp: r split: option.splits)
  finally show ?case .
qed

lemma map_of_group_by_mes:
  "map_of (group_by_mes rows) m =
     (if m \<in> set (map eb_mes_realizacion rows)
      then Some (int (length (filter (\<lambda>e. eb_mes_realizacion e = m) rows))) else None)"
  by (simp add: group_by_mes_def map_of_map_restrict restrict_map_def)

lemma distinct_group_by_mes: "distinct (map fst (group_by_mes rows))"
  by (simp add: group_by_mes_def comp_def)

lemma leer_datos_total:
  "\<forall>k\<in>set ks. datos k \<noteq> None \<Longrightarrow> leer_datos datos ks = Inr (map (\<lambda>k. the (datos k)) ks)"
  by (induction ks) auto

lemma datos_inicial_Some: "1 \<le> k \<Longrightarrow> k \<le> 12 \<Longrightarrow> datos_inicial k = Some 0"
proof -
  assume "1 \<le> k" "k \<le> 12"
  then have "k \<in> set [1..12]" by simp
  then show ?thesis
    unfolding datos_inicial_def by (simp add: map_of_map_restrict restrict_map_def)
qed

lemma datos_llenos:
  assumes "1 \<le> k" "k \<le> 12"
  shows "llenar_datos (group_by_mes rows) datos_inicial k =
           Some (int (length (filter (\<lambda>e. eb_mes_realizacion e = k) rows)))"
proof (cases "k \<in> set (map eb_mes_realizacion rows)")
  case True
  then show ?thesis
    by (simp add: llenar_datos_lookup[OF distinct_group_by_mes] map_of_group_by_mes)
next
  case False
  then have "filter (\<lambda>e. eb_mes_realizacion e = k) rows = []"
    by (auto simp: filter_empty_conv)
  with False show ?thesis
    by (simp add: llenar_datos_lookup[OF distinct_group_by_mes] map_of_group_by_mes
        datos_inicial_Some[OF assms])
qed

text \<open>
  C7. For a year and an optional exam type that pass the parameter checks, the
  report is produced and its \<open>data\<close> has twelve elements; the element at index
  \<open>m - 1\<close> is the number of base rows of that year (and type) that are not deleted
  and whose \<open>mes_realizacion\<close> is \<open>m\<close>, which is 0 when there is none.
\<close>

theorem examenes_por_periodo_doce_meses:
  assumes tipo: "case tipo_examen of None \<Rightarrow> True | Some t \<Rightarrow> t \<in> set [''TAC'', ''RX'', ''ECO'']"
      and agr: "agrupar_por \<in> set [''mes'', ''semana'']"
  shows "\<exists>rep. examenes_por_periodo db cu anio tipo_examen agrupar_por = Inr rep \<and>
           length (rp_data rep) = 12 \<and>
           (\<forall>m\<in>{1..12}. rp_data rep ! nat (m - 1) =
              int (length (filter
                (\<lambda>e. eb_anio_realizacion e = anio \<and> eb_deleted_at e = None \<and>
                     (case tipo_examen of None \<Rightarrow> True | Some t \<Rightarrow> eb_tipo_examen e = t) \<and>
                     eb_mes_realizacion e = m)
                (examenes_base db))))"
proof -
  define query where
    "query = filter (\<lambda>e. eb_anio_realizacion e = anio \<and> eb_deleted_at e = None) (examenes_base db)"
  define query' where
    "query' = (case tipo_examen of None \<Rightarrow> query
               | Some t \<Rightarrow> if t = [] then query else filter (\<lambda>e. eb_tipo_examen e = t) query)"
  define datos where "datos = llenar_datos (group_by_mes query') datos_inicial"
  have q': "query' = filter (\<lambda>e. eb_anio_realizacion e = anio \<and> eb_deleted_at e = None \<and>
                     (case tipo_examen of None \<Rightarrow> True | Some t \<Rightarrow> eb_tipo_examen e = t))
                (examenes_base db)"
    using tipo unfolding query'_def query_def
    by (cases tipo_examen) (auto intro: filter_cong)
  have lleno: "\<And>k. 1 \<le> k \<Longrightarrow> k \<le> 12 \<Longrightarrow>
      datos k = Some (int (length (filter (\<lambda>e. eb_mes_realizacion e = k) query')))"
    unfolding datos_def by (rule datos_llenos)
  then have "\<forall>k\<in>set [1..12]. datos k \<noteq> None" by simp
  then have leer: "leer_datos datos [1..12] = Inr (map (\<lambda>k. the (datos k)) [1..12])"
    by (rule leer_datos_total)
  define rep where
    "rep = \<lparr>rp_labels = [''Ene'', ''Feb'', ''Mar'', ''Abr'', ''May'', ''Jun'',
                         ''Jul'', ''Ago'', ''Sep'', ''Oct'', ''Nov'', ''Dic''],
            rp_data = map (\<lambda>k. the (datos k)) [1..12],
            rp_anio = anio,
            rp_tipo_examen = (case tipo_examen of None \<Rightarrow> ''Todos''
                              | Some t \<Rightarrow> if t = [] then ''Todos'' else t)\<rparr>"
  have run: "examenes_por_periodo db cu anio tipo_examen agrupar_por = Inr rep"
    using tipo agr leer
    unfolding examenes_por_periodo_def rep_def datos_def query'_def query_def Let_def
    by (simp)
  have len: "length (rp_data rep) = 12" by (simp add: rep_def)
  have el: "rp_data rep ! nat (m - 1) =
              int (length (filter
                (\<lambda>e. eb_anio_realizacion e = anio \<and> eb_deleted_at e = None \<and>
                     (case tipo_examen of None \<Rightarrow> True | Some t \<Rightarrow> eb_tipo_examen e = t) \<and>
                     eb_mes_realizacion e = m)
                (examenes_base db)))" if m: "m \<in> {1..12}" for m
  proof -
    from m have m1: "1 \<le> m" and m12: "m \<le> 12" by auto
    have idx: "nat (m - 1) < length [1..12::int]" using m1 m12 by simp
    have "[1..12::int] ! nat (m - 1) = m" using m1 m12 by (simp add: nth_upto)
    then have "rp_data rep ! nat (m - 1) = the (datos m)"
      using idx unfolding rep_def by (simp)
    also have "\<dots> = int (length (filter (\<lambda>e. eb_mes_realizacion e = m) query'))"
      using lleno[OF m1 m12] by simp
    also have "filter (\<lambda>e. eb_mes_realizacion e = m) query' =
        filter (\<lambda>e. eb_anio_realizacion e = anio \<and> eb_deleted_at e = None \<and>
                     (case tipo_examen of None \<Rightarrow> True | Some t \<Rightarrow> eb_tipo_examen e = t) \<and>
                     eb_mes_realizacion e = m) (examenes_base db)"
      unfolding q' by (auto intro: filter_cong)
    finally show ?thesis .
  qed
  from run len el show ?thesis by blast
qed

theorem examenes_por_periodo_doce_meses_witness:
  "\<exists>rep. examenes_por_periodo ej_db ej_ingresador 2024 None ''mes'' = Inr rep \<and>
     length (rp_data rep) = 12 \<and> rp_data rep ! 2 = 0 \<and> rp_data rep ! 5 = 1"
proof -
  have t: "case (None :: string option) of None \<Rightarrow> True | Some t \<Rightarrow> t \<in> set [''TAC'', ''RX'', ''ECO'']"
    by simp
  have a: "''mes'' \<in> set [''mes'', ''semana'']" by simp
  from examenes_por_periodo_doce_meses[OF t a, of ej_db ej_ingresador 2024]
  obtain rep where rep: "examenes_por_periodo ej_db ej_ingresador 2024 None ''mes'' = Inr rep"
    "length (rp_data rep) = 12"
    "\<forall>m\<in>{1..12}. rp_data rep ! nat (m - 1) =
              int (length (filter
                (\<lambda>e. eb_anio_realizacion e = 2024 \<and> eb_deleted_at e = None \<and>
                     (case (None :: string option) of None \<Rightarrow> True | Some t \<Rightarrow> eb_tipo_examen e = t) \<and>
                     eb_mes_realizacion e = m)
                (examenes_base ej_db)))"
    by blast
  have "(3::int) \<in> {1..12}" "(6::int) \<in> {1..12}" by simp_all
  with rep(3) have "rp_data rep ! nat (3 - 1) =
      int (length (filter
                (\<lambda>e. eb_anio_realizacion e = 2024 \<and> eb_deleted_at e = None \<and>
                     (case (None :: string option) of None \<Rightarrow> True | Some t \<Rightarrow> eb_tipo_examen e = t) \<and>
                     eb_mes_realizacion e = 3)
                (examenes_base ej_db)))"
    "rp_data rep ! nat (6 - 1) =
      int (length (filter
                (\<lambda>e. eb_anio_realizacion e = 2024 \<and> eb_deleted_at e = None \<and>
                     (case (None :: string option) of None \<Rightarrow> True | Some t \<Rightarrow> eb_tipo_examen e = t) \<and>
                     eb_mes_realizacion e = 6)
                (examenes_base ej_db)))"
    by blast+
  then have "rp_data rep ! 2 = 0" "rp_data rep ! 5 = 1"
    by (simp_all add: ej_db_def ej_base_def)
  with rep(1,2) show ?thesis by blast
qed

section \<open>Finding or creating a patient\<close>

lemma find_map_replace:
  "find P xs = Some a \<Longrightarrow> P a' \<Longrightarrow>
   find P (map (\<lambda>x. if k x = k a then a' else x) xs) = Some a'"
proof (induction xs)
  case Nil
  then show ?case by simp
next
  case (Cons x xs)
  show ?case
  proof (cases "P x")
    case True
    with Cons.prems have "x = a" by simp
    with Cons.prems show ?thesis by simp
  next
    case False
    with Cons.prems have "find P xs = Some a" by simp
    from Cons.IH[OF this Cons.prems(2)] False Cons.prems(2) show ?thesis by simp
  qed
qed

lemma find_snoc_new:
  "find P xs = None \<Longrightarrow> P n \<Longrightarrow> find P (xs @ [n]) = Some n"
  by (induction xs) (auto split: if_splits)

lemma find_Some_P: "find P xs = Some a \<Longrightarrow> P a"
  by (induction xs) (auto split: if_splits)

lemma paciente_row_check_cong:
  "paciente_row_check db (p\<lparr>pac_fecha_nacimiento := f, pac_created_at := c, pac_updated_at := u\<rparr>) =
   paciente_row_check db p"
  by (simp add: paciente_row_check_def)

lemma obtener_o_crear_paciente_repite:
  assumes valido: "validar_rut_chileno (limpiar_rut rut) = Inr True"
      and primera: "obtener_o_crear_paciente now db rut nombre fecha_nac = (r, db1)"
  shows "obtener_o_crear_paciente now' db1 rut nombre None = (r, db1)"
    and "r = Inr p \<Longrightarrow> obtener_o_crear_paciente now' db1 rut nombre' None = (Inr p, db1)"
proof -
  let ?P = "\<lambda>p. pac_rut p = limpiar_rut rut"
  have both: "obtener_o_crear_paciente now' db1 rut nombre None = (r, db1) \<and>
        (r = Inr p \<longrightarrow> obtener_o_crear_paciente now' db1 rut nombre' None = (Inr p, db1))"
  proof (cases "find ?P (pacientes db)")
    case (Some q)
    have Pq: "?P q" using Some by (rule find_Some_P)
    show ?thesis
    proof (cases "fecha_nac \<noteq> None \<and> pac_fecha_nacimiento q = None")
      case True
      let ?q' = "q\<lparr>pac_fecha_nacimiento := fecha_nac, pac_updated_at := Some now\<rparr>"
      from primera valido Some True
      have r: "r = Inr ?q'"
        and db1: "db1 = db\<lparr>pacientes := map (\<lambda>p. if pac_id p = pac_id q then ?q' else p) (pacientes db)\<rparr>"
        by (auto simp: obtener_o_crear_paciente_def Let_def)
      have "?P ?q'" using Pq by simp
      from find_map_replace[OF Some this, of pac_id]
      have f: "find ?P (pacientes db1) = Some ?q'" by (simp add: db1)
      from True have nn: "pac_fecha_nacimiento ?q' \<noteq> None" by simp
      show ?thesis
        using valido f r by (auto simp: obtener_o_crear_paciente_def Let_def)
    next
      case False
      from primera valido Some False
      have r: "r = Inr q" and db1: "db1 = db"
        by (auto simp: obtener_o_crear_paciente_def Let_def)
      show ?thesis
        using valido Some r db1 by (auto simp: obtener_o_crear_paciente_def Let_def)
    qed
  next
    case None
    show ?thesis
    proof (cases nombre)
      case nn: None
      from primera valido None nn have "r = Inl HTTP_400" "db1 = db"
        by (auto simp: obtener_o_crear_paciente_def Let_def)
      then show ?thesis
        using valido None nn by (auto simp: obtener_o_crear_paciente_def Let_def)
    next
      case (Some n)
      show ?thesis
      proof (cases "n = []")
        case True
        from primera valido None Some True have "r = Inl HTTP_400" "db1 = db"
          by (auto simp: obtener_o_crear_paciente_def Let_def)
        then show ?thesis
          using valido None Some True by (auto simp: obtener_o_crear_paciente_def Let_def)
      next
        case False
        let ?nuevo = "\<lambda>f t. \<lparr>pac_id = fresh_id (map pac_id (pacientes db)),
                                pac_rut = limpiar_rut rut,
                                pac_nombre_completo = n,
                                pac_fecha_nacimiento = f,
                                pac_created_at = Some t,
                                pac_updated_at = Some t\<rparr>"
        have chk: "paciente_row_check db (?nuevo None now') = paciente_row_check db (?nuevo fecha_nac now)"
          by (simp add: paciente_row_check_def)
        show ?thesis
        proof (cases "paciente_row_check db (?nuevo fecha_nac now)")
          case cn: None
          from primera valido None Some False cn
          have r: "r = Inr (?nuevo fecha_nac now)"
            and db1: "db1 = db\<lparr>pacientes := pacientes db @ [?nuevo fecha_nac now]\<rparr>"
            by (auto simp: obtener_o_crear_paciente_def Let_def)
          have "find ?P (pacientes db1) = Some (?nuevo fecha_nac now)"
            unfolding db1 using find_snoc_new[OF None, of "?nuevo fecha_nac now"] by simp
          then show ?thesis
            using valido r by (auto simp: obtener_o_crear_paciente_def Let_def)
        next
          case (Some e)
          from primera valido None \<open>nombre = Some n\<close> False Some
          have r: "r = Inl e" and db1: "db1 = db"
            by (auto simp: obtener_o_crear_paciente_def Let_def)
          show ?thesis
            using valido None \<open>nombre = Some n\<close> False Some chk r db1
            by (auto simp: obtener_o_crear_paciente_def Let_def)
        qed
      qed
    qed
  qed
  from both show "obtener_o_crear_paciente now' db1 rut nombre None = (r, db1)" by blast
  from both show "r = Inr p \<Longrightarrow> obtener_o_crear_paciente now' db1 rut nombre' None = (Inr p, db1)"
    by blast
qed

lemma obtener_o_crear_paciente_actualiza:
  assumes valido: "validar_rut_chileno (limpiar_rut rut) = Inr True"
      and existe: "find (\<lambda>p. pac_rut p = limpiar_rut rut) (pacientes db) = Some q"
      and sin: "pac_fecha_nacimiento q = None"
  shows "obtener_o_crear_paciente now db rut nombre (Some d) =
           (Inr (q\<lparr>pac_fecha_nacimiento := Some d, pac_updated_at := Some now\<rparr>),
            db\<lparr>pacientes :=
                 map (\<lambda>x. if pac_id x = pac_id q
                           then q\<lparr>pac_fecha_nacimiento := Some d, pac_updated_at := Some now\<rparr>
                           else x)
                   (pacientes db)\<rparr>)"
  using assms by (simp add: obtener_o_crear_paciente_def Let_def)


text \<open>
  C5. For a national ID that passes the check-digit test, a second call of
  \<open>obtener_o_crear_paciente\<close> with the same ID and no birth date returns what the
  first call returned and leaves the store as the first call left it (whatever the
  clock reads); when the first call returned a patient, this holds whatever name the
  second call passes. When a patient with that ID is stored without a birth date and
  a birth date is supplied, the call returns that patient with the birth date set,
  rewrites its row where it stands and changes no other row or table.
\<close>

theorem obtener_o_crear_paciente_idempotent:
  assumes valido: "validar_rut_chileno (limpiar_rut rut) = Inr True"
  shows "(obtener_o_crear_paciente now db rut nombre fecha_nac = (r, db1) \<longrightarrow>
            obtener_o_crear_paciente now' db1 rut nombre None = (r, db1) \<and>
            (\<forall>p nombre'. r = Inr p \<longrightarrow>
               obtener_o_crear_paciente now' db1 rut nombre' None = (Inr p, db1))) \<and>
         (find (\<lambda>p. pac_rut p = limpiar_rut rut) (pacientes db) = Some q \<and>
          pac_fecha_nacimiento q = None \<longrightarrow>
            (\<exists>p db2. obtener_o_crear_paciente now db rut nombre (Some d) = (Inr p, db2) \<and>
                p = q\<lparr>pac_fecha_nacimiento := Some d, pac_updated_at := Some now\<rparr> \<and>
                db2 = db\<lparr>pacientes :=
                           map (\<lambda>x. if pac_id x = pac_id q then p else x) (pacientes db)\<rparr> \<and>
                find (\<lambda>p. pac_rut p = limpiar_rut rut) (pacientes db2) = Some p))"
proof -
  have a: "obtener_o_crear_paciente now db rut nombre fecha_nac = (r, db1) \<longrightarrow>
            obtener_o_crear_paciente now' db1 rut nombre None = (r, db1) \<and>
            (\<forall>p nombre'. r = Inr p \<longrightarrow>
               obtener_o_crear_paciente now' db1 rut nombre' None = (Inr p, db1))"
    using obtener_o_crear_paciente_repite[OF valido] by blast
  have b: "find (\<lambda>p. pac_rut p = limpiar_rut rut) (pacientes db) = Some q \<and>
          pac_fecha_nacimiento q = None \<longrightarrow>
            (\<exists>p db2. obtener_o_crear_paciente now db rut nombre (Some d) = (Inr p, db2) \<and>
                p = q\<lparr>pac_fecha_nacimiento := Some d, pac_updated_at := Some now\<rparr> \<and>
                db2 = db\<lparr>pacientes :=
                           map (\<lambda>x. if pac_id x = pac_id q then p else x) (pacientes db)\<rparr> \<and>
                find (\<lambda>p. pac_rut p = limpiar_rut rut) (pacientes db2) = Some p)"
  proof
    assume h: "find (\<lambda>p. pac_rut p = limpiar_rut rut) (pacientes db) = Some q \<and>
               pac_fecha_nacimiento q = None"
    let ?p = "q\<lparr>pac_fecha_nacimiento := Some d, pac_updated_at := Some now\<rparr>"
    let ?db2 = "db\<lparr>pacientes := map (\<lambda>x. if pac_id x = pac_id q then ?p else x) (pacientes db)\<rparr>"
    from h have f: "find (\<lambda>p. pac_rut p = limpiar_rut rut) (pacientes db) = Some q"
      and s: "pac_fecha_nacimiento q = None" by blast+
    have run: "obtener_o_crear_paciente now db rut nombre (Some d) = (Inr ?p, ?db2)"
      by (rule obtener_o_crear_paciente_actualiza[OF valido f s])
    have "pac_rut ?p = limpiar_rut rut" using find_Some_P[OF f] by simp
    from find_map_replace[OF f this, of pac_id]
    have "find (\<lambda>p. pac_rut p = limpiar_rut rut) (pacientes ?db2) = Some ?p" by simp
    with run show "\<exists>p db2. obtener_o_crear_paciente now db rut nombre (Some d) = (Inr p, db2) \<and>
                p = q\<lparr>pac_fecha_nacimiento := Some d, pac_updated_at := Some now\<rparr> \<and>
                db2 = db\<lparr>pacientes :=
                           map (\<lambda>x. if pac_id x = pac_id q then p else x) (pacientes db)\<rparr> \<and>
                find (\<lambda>p. pac_rut p = limpiar_rut rut) (pacientes db2) = Some p"
      by blast
  qed
  from a b show ?thesis by blast
qed

theorem obtener_o_crear_paciente_idempotent_witness:
  "(\<exists>p db1. obtener_o_crear_paciente 7 ej_db ''11.111.111-1'' (Some ''Rosa Paz'') None = (Inr p, db1) \<and>
       pac_id p = 2 \<and> length (pacientes db1) = 2 \<and>
       obtener_o_crear_paciente 8 db1 ''11.111.111-1'' None None = (Inr p, db1)) \<and>
   (\<exists>p db2. obtener_o_crear_paciente 7 ej_db ''12.345.678-5'' None
                (Some \<lparr>year = 2000, month = 6, day = 15\<rparr>) = (Inr p, db2) \<and>
       pac_id p = 1 \<and> pac_fecha_nacimiento p = Some \<lparr>year = 2000, month = 6, day = 15\<rparr> \<and>
       map pac_id (pacientes db2) = [1] \<and>
       find (\<lambda>p. pac_rut p = ''123456785'') (pacientes db2) = Some p)"
proof -
  have v1: "validar_rut_chileno (limpiar_rut ''11.111.111-1'') = Inr True" by code_simp
  have v2: "validar_rut_chileno (limpiar_rut ''12.345.678-5'') = Inr True" by code_simp
  have "(case obtener_o_crear_paciente 7 ej_db ''11.111.111-1'' (Some ''Rosa Paz'') None of
           (Inr p, db1) \<Rightarrow> pac_id p = 2 \<and> length (pacientes db1) = 2 | _ \<Rightarrow> False)"
    by code_simp
  then obtain p db1 where
    run: "obtener_o_crear_paciente 7 ej_db ''11.111.111-1'' (Some ''Rosa Paz'') None = (Inr p, db1)"
    and p: "pac_id p = 2" "length (pacientes db1) = 2"
    by (auto split: prod.splits sum.splits)
  from obtener_o_crear_paciente_idempotent[OF v1, of 7 ej_db "Some ''Rosa Paz''" None "Inr p" db1 8] run
  have "obtener_o_crear_paciente 8 db1 ''11.111.111-1'' None None = (Inr p, db1)" by blast
  with run p have A: "\<exists>p db1. obtener_o_crear_paciente 7 ej_db ''11.111.111-1'' (Some ''Rosa Paz'') None = (Inr p, db1) \<and>
       pac_id p = 2 \<and> length (pacientes db1) = 2 \<and>
       obtener_o_crear_paciente 8 db1 ''11.111.111-1'' None None = (Inr p, db1)" by blast
  have l: "limpiar_rut ''12.345.678-5'' = ''123456785''" by code_simp
  have f: "find (\<lambda>p. pac_rut p = limpiar_rut ''12.345.678-5'') (pacientes ej_db) = Some ej_paciente \<and>
           pac_fecha_nacimiento ej_paciente = None"
    by (simp add: l ej_db_def ej_paciente_def)
  from obtener_o_crear_paciente_idempotent[OF v2, where now = 7 and db = ej_db
      and q = ej_paciente and nombre = None
      and d = "\<lparr>year = 2000, month = 6, day = 15\<rparr>"] f
  obtain p2 db2 where
    r2: "obtener_o_crear_paciente 7 ej_db ''12.345.678-5'' None
                (Some \<lparr>year = 2000, month = 6, day = 15\<rparr>) = (Inr p2, db2)"
      "p2 = ej_paciente\<lparr>pac_fecha_nacimiento := Some \<lparr>year = 2000, month = 6, day = 15\<rparr>,
                        pac_updated_at := Some 7\<rparr>"
      "db2 = ej_db\<lparr>pacientes :=
                     map (\<lambda>x. if pac_id x = pac_id ej_paciente then p2 else x) (pacientes ej_db)\<rparr>"
      "find (\<lambda>p. pac_rut p = limpiar_rut ''12.345.678-5'') (pacientes db2) = Some p2"
    by blast
  have "pac_id p2 = 1" "pac_fecha_nacimiento p2 = Some \<lparr>year = 2000, month = 6, day = 15\<rparr>"
    "map pac_id (pacientes db2) = [1]"
    using r2(2,3) by (simp_all add: ej_db_def ej_paciente_def)
  with r2(1,4) l have B: "\<exists>p db2. obtener_o_crear_paciente 7 ej_db ''12.345.678-5'' None
                (Some \<lparr>year = 2000, month = 6, day = 15\<rparr>) = (Inr p, db2) \<and>
       pac_id p = 1 \<and> pac_fecha_nacimiento p = Some \<lparr>year = 2000, month = 6, day = 15\<rparr> \<and>
       map pac_id (pacientes db2) = [1] \<and>
       find (\<lambda>p. pac_rut p = ''123456785'') (pacientes db2) = Some p" by auto
  from A B show ?thesis by blast
qed

section \<open>Soft deletion of an exam\<close>

lemma find_Some_set: "find P xs = Some a \<Longrightarrow> a \<in> set xs \<and> P a"
  by (induction xs) (auto split: if_splits)

lemma set_insert_desc: "set (insert_desc x ys) = insert x (set ys)"
  by (induction ys) auto

lemma set_order_by_fecha_desc: "set (order_by_fecha_desc rows) = set rows"
  unfolding order_by_fecha_desc_def by (induction rows) (auto simp: set_insert_desc)

lemma join_base_tac_base: "(b, t) \<in> set (join_base_tac db) \<Longrightarrow> b \<in> set (examenes_base db)"
  by (auto simp: join_base_tac_def)

lemma responses_ids: "responses rows = Inr rs \<Longrightarrow> map r_id rs = map (\<lambda>(b, t). eb_id b) rows"
proof (induction rows arbitrary: rs)
  case Nil
  then show ?case by simp
next
  case (Cons x rows)
  obtain b t where x: "x = (b, t)" by (cases x)
  from Cons.prems x obtain r rs' where
    r: "tac_response b t = Inr r" and rs': "responses rows = Inr rs'" and rs: "rs = r # rs'"
    by (auto split: sum.splits)
  from r have "r_id r = eb_id b" by (auto simp: tac_response_def split: option.splits)
  with Cons.IH[OF rs'] rs x show ?case by simp
qed

lemma listar_examenes_tac_filas:
  assumes "listar_examenes_tac db u skip limit fi ff pr mes anio = Inr rs"
  shows "\<exists>rows. set rows \<subseteq> set (filter (\<lambda>(b, t). eb_tipo_examen b = ''TAC'' \<and> eb_deleted_at b = None)
                                   (join_base_tac db)) \<and>
                responses rows = Inr rs"
proof -
  define q0 where
    "q0 = filter (\<lambda>(b, t). eb_tipo_examen b = ''TAC'' \<and> eb_deleted_at b = None) (join_base_tac db)"
  define q1 where
    "q1 = (case fi of None \<Rightarrow> q0
           | Some f \<Rightarrow> filter (\<lambda>(b, t). date_le f (eb_fecha_realizacion b)) q0)"
  define q2 where
    "q2 = (case ff of None \<Rightarrow> q1
           | Some f \<Rightarrow> filter (\<lambda>(b, t). date_le (eb_fecha_realizacion b) f) q1)"
  define q3 where
    "q3 = (case pr of None \<Rightarrow> Some q2
           | Some r \<Rightarrow>
               if r = [] then Some q2
               else (case find (\<lambda>p. pac_rut p = limpiar_rut r) (pacientes db) of
                       Some paciente \<Rightarrow>
                         Some (filter (\<lambda>(b, t). eb_paciente_id b = pac_id paciente) q2)
                     | None \<Rightarrow> None))"
  define q4 where
    "q4 = (\<lambda>q3' :: (examen_base \<times> examen_tac) list. case mes of None \<Rightarrow> q3'
                 | Some m \<Rightarrow> if m = 0 then q3'
                             else filter (\<lambda>(b, t). eb_mes_realizacion b = m) q3')"
  define q5 where
    "q5 = (\<lambda>q3' :: (examen_base \<times> examen_tac) list. case anio of None \<Rightarrow> q4 q3'
                 | Some a \<Rightarrow> if a = 0 then q4 q3'
                             else filter (\<lambda>(b, t). eb_anio_realizacion b = a) (q4 q3'))"
  have s1: "set q1 \<subseteq> set q0" unfolding q1_def by (cases fi) auto
  have s2: "set q2 \<subseteq> set q1" unfolding q2_def by (cases ff) auto
  have s3: "\<And>q. q3 = Some q \<Longrightarrow> set q \<subseteq> set q2"
    unfolding q3_def by (auto split: option.splits if_splits)
  have s4: "\<And>q. set (q4 q) \<subseteq> set q" unfolding q4_def by (cases mes) auto
  have s5: "\<And>q. set (q5 q) \<subseteq> set (q4 q)" unfolding q5_def by (cases anio) auto
  have eq: "listar_examenes_tac db u skip limit fi ff pr mes anio =
     (case require_ingresador_o_admin u of
        Inl e \<Rightarrow> Inl e
      | Inr cu \<Rightarrow>
          if \<not> (0 \<le> skip \<and> 1 \<le> limit \<and> limit \<le> 1000 \<and>
                 (case mes of None \<Rightarrow> True | Some m \<Rightarrow> 1 \<le> m \<and> m \<le> 12))
          then Inl ValidationError
          else (case q3 of
                  None \<Rightarrow> Inr []
                | Some q3' \<Rightarrow>
                    responses (take (nat limit) (drop (nat skip) (order_by_fecha_desc (q5 q3'))))))"
    unfolding listar_examenes_tac_def q0_def q1_def q2_def q3_def q4_def q5_def Let_def
    by (rule refl)
  show ?thesis
  proof (cases q3)
    case None
    with assms eq have "rs = []" by (auto split: sum.splits if_splits)
    then have "set [] \<subseteq> set q0 \<and> responses [] = Inr rs" by simp
    then show ?thesis unfolding q0_def by blast
  next
    case (Some q)
    let ?rows = "take (nat limit) (drop (nat skip) (order_by_fecha_desc (q5 q)))"
    from assms eq Some have r: "responses ?rows = Inr rs"
      by (auto split: sum.splits if_splits)
    have "set ?rows \<subseteq> set (q5 q)"
      using set_take_subset set_drop_subset set_order_by_fecha_desc by (metis subset_trans)
    with s1 s2 s3[OF Some] s4[of q] s5[of q] have "set ?rows \<subseteq> set q0" by blast
    with r show ?thesis unfolding q0_def by blast
  qed
qed

lemma listar_examenes_tac_vivos:
  assumes "listar_examenes_tac db u skip limit fi ff pr mes anio = Inr rs"
      and "r \<in> set rs"
  shows "\<exists>b\<in>set (examenes_base db). eb_id b = r_id r \<and> eb_deleted_at b = None"
proof -
  from listar_examenes_tac_filas[OF assms(1)] obtain rows where
    sub: "set rows \<subseteq> set (filter (\<lambda>(b, t). eb_tipo_examen b = ''TAC'' \<and> eb_deleted_at b = None)
                                   (join_base_tac db))"
    and resp: "responses rows = Inr rs" by blast
  from assms(2) have "r_id r \<in> set (map r_id rs)" by simp
  with responses_ids[OF resp] have "r_id r \<in> (\<lambda>(b, t). eb_id b) ` set rows" by simp
  then obtain b t where bt: "(b, t) \<in> set rows" "eb_id b = r_id r" by auto
  with sub have "(b, t) \<in> set (join_base_tac db)" "eb_deleted_at b = None" by auto
  with bt(2) show ?thesis by (auto dest: join_base_tac_base)
qed

lemma obtener_examen_tac_vivo:
  assumes "obtener_examen_tac db u examen_id = Inr r"
  shows "\<exists>b\<in>set (examenes_base db). eb_id b = examen_id \<and> eb_deleted_at b = None"
proof -
  from assms obtain b t where
    f: "find (\<lambda>(b, t). eb_id b = examen_id \<and> eb_tipo_examen b = ''TAC'' \<and> eb_deleted_at b = None)
          (join_base_tac db) = Some (b, t)"
    by (auto simp: obtener_examen_tac_def split: sum.splits option.splits)
  from find_Some_set[OF f]
  have "(b, t) \<in> set (join_base_tac db)" "eb_id b = examen_id" "eb_deleted_at b = None"
    by auto
  then show ?thesis by (auto dest: join_base_tac_base)
qed

lemma base_row_check_auditoria:
  assumes "base_row_check db e = None" and "fk_ok (map usr_id (usuarios db)) ub"
  shows "base_row_check db (e\<lparr>eb_deleted_at := d, eb_updated_by := ub, eb_updated_at := u\<rparr>) = None"
  using assms by (simp add: base_row_check_def split: if_splits)

lemma eliminar_examen_tac_ok:
  assumes admin: "usr_rol cu = ''administrador''"
      and user: "usr_id cu \<in> set (map usr_id (usuarios db))"
      and found: "find (\<lambda>b. eb_id b = examen_id \<and> eb_tipo_examen b = ''TAC'' \<and>
                           eb_deleted_at b = None) (examenes_base db) = Some e"
      and ok: "base_row_check db e = None"
  shows "eliminar_examen_tac now db cu examen_id =
           (Inr (),
            db\<lparr>examenes_base :=
                 map (\<lambda>b. if eb_id b = examen_id
                           then e\<lparr>eb_deleted_at := Some now,
                                  eb_updated_by := Some (usr_id cu),
                                  eb_updated_at := Some now\<rparr>
                           else b)
                   (examenes_base db)\<rparr>)"
proof -
  from find_Some_set[OF found] have id: "eb_id e = examen_id" and nd: "eb_deleted_at e = None"
    by auto
  let ?e1 = "e\<lparr>eb_deleted_at := Some now, eb_updated_by := Some (usr_id cu)\<rparr>"
  have ne: "?e1 \<noteq> e"
  proof
    assume "?e1 = e"
    then have "eb_deleted_at ?e1 = eb_deleted_at e" by simp
    with nd show False by simp
  qed
  then have t: "touch_base now e ?e1 = e\<lparr>eb_deleted_at := Some now,
                                  eb_updated_by := Some (usr_id cu),
                                  eb_updated_at := Some now\<rparr>"
    by (simp add: touch_base_def)
  have fk: "fk_ok (map usr_id (usuarios db)) (Some (usr_id cu))"
    using user by (simp add: fk_ok_def)
  have chk: "base_row_check db (touch_base now e ?e1) = None"
    unfolding t by (rule base_row_check_auditoria[OF ok fk])
  show ?thesis
    using admin found chk
    by (simp add: eliminar_examen_tac_def require_admin_def t update_base_row_def id)
qed


lemma join_base_rx_base: "(b, t) \<in> set (join_base_rx db) \<Longrightarrow> b \<in> set (examenes_base db)"
  by (auto simp: join_base_rx_def)

lemma responses_rx_ids: "responses_rx rows = Inr rs \<Longrightarrow> map rxr_id rs = map (\<lambda>(b, t). eb_id b) rows"
proof (induction rows arbitrary: rs)
  case Nil
  then show ?case by simp
next
  case (Cons x rows)
  obtain b t where x: "x = (b, t)" by (cases x)
  from Cons.prems x obtain r rs' where
    r: "rx_response b t = Inr r" and rs': "responses_rx rows = Inr rs'" and rs: "rs = r # rs'"
    by (auto split: sum.splits)
  from r have "rxr_id r = eb_id b" by (auto simp: rx_response_def split: option.splits)
  with Cons.IH[OF rs'] rs x show ?case by simp
qed

lemma listar_examenes_rx_filas:
  assumes "listar_examenes_rx db u skip limit fi ff pr mes anio = Inr rs"
  shows "\<exists>rows. set rows \<subseteq> set (filter (\<lambda>(b, t). eb_tipo_examen b = ''RX'' \<and> eb_deleted_at b = None)
                                   (join_base_rx db)) \<and>
                responses_rx rows = Inr rs"
proof -
  define q0 where
    "q0 = filter (\<lambda>(b, t). eb_tipo_examen b = ''RX'' \<and> eb_deleted_at b = None) (join_base_rx db)"
  define q1 where
    "q1 = (case fi of None \<Rightarrow> q0
           | Some f \<Rightarrow> filter (\<lambda>(b, t). date_le f (eb_fecha_realizacion b)) q0)"
  define q2 where
    "q2 = (case ff of None \<Rightarrow> q1
           | Some f \<Rightarrow> filter (\<lambda>(b, t). date_le (eb_fecha_realizacion b) f) q1)"
  define q3 where
    "q3 = (case pr of None \<Rightarrow> Some q2
           | Some r \<Rightarrow>
               if r = [] then Some q2
               else (case find (\<lambda>p. pac_rut p = limpiar_rut r) (pacientes db) of
                       Some paciente \<Rightarrow>
                         Some (filter (\<lambda>(b, t). eb_paciente_id b = pac_id paciente) q2)
                     | None \<Rightarrow> None))"
  define q4 where
    "q4 = (\<lambda>q3' :: (examen_base \<times> examen_rx) list. case mes of None \<Rightarrow> q3'
                 | Some m \<Rightarrow> if m = 0 then q3'
                             else filter (\<lambda>(b, t). eb_mes_realizacion b = m) q3')"
  define q5 where
    "q5 = (\<lambda>q3' :: (examen_base \<times> examen_rx) list. case anio of None \<Rightarrow> q4 q3'
                 | Some a \<Rightarrow> if a = 0 then q4 q3'
                             else filter (\<lambda>(b, t). eb_anio_realizacion b = a) (q4 q3'))"
  have s1: "set q1 \<subseteq> set q0" unfolding q1_def by (cases fi) auto
  have s2: "set q2 \<subseteq> set q1" unfolding q2_def by (cases ff) auto
  have s3: "\<And>q. q3 = Some q \<Longrightarrow> set q \<subseteq> set q2"
    unfolding q3_def by (auto split: option.splits if_splits)
  have s4: "\<And>q. set (q4 q) \<subseteq> set q" unfolding q4_def by (cases mes) auto
  have s5: "\<And>q. set (q5 q) \<subseteq> set (q4 q)" unfolding q5_def by (cases anio) auto
  have eq: "listar_examenes_rx db u skip limit fi ff pr mes anio =
     (case require_ingresador_o_admin u of
        Inl e \<Rightarrow> Inl e
      | Inr cu \<Rightarrow>
          if \<not> (0 \<le> skip \<and> 1 \<le> limit \<and> limit \<le> 1000 \<and>
                 (case mes of None \<Rightarrow> True | Some m \<Rightarrow> 1 \<le> m \<and> m \<le> 12))
          then Inl ValidationError
          else (case q3 of
                  None \<Rightarrow> Inr []
                | Some q3' \<Rightarrow>
                    responses_rx (take (nat limit) (drop (nat skip) (order_by_fecha_desc (q5 q3'))))))"
    unfolding listar_examenes_rx_def q0_def q1_def q2_def q3_def q4_def q5_def Let_def
    by (rule refl)
  show ?thesis
  proof (cases q3)
    case None
    with assms eq have "rs = []" by (auto split: sum.splits if_splits)
    then have "set [] \<subseteq> set q0 \<and> responses_rx [] = Inr rs" by simp
    then show ?thesis unfolding q0_def by blast
  next
    case (Some q)
    let ?rows = "take (nat limit) (drop (nat skip) (order_by_fecha_desc (q5 q)))"
    from assms eq Some have r: "responses_rx ?rows = Inr rs"
      by (auto split: sum.splits if_splits)
    have "set ?rows \<subseteq> set (q5 q)"
      using set_take_subset set_drop_subset set_order_by_fecha_desc by (metis subset_trans)
    with s1 s2 s3[OF Some] s4[of q] s5[of q] have "set ?rows \<subseteq> set q0" by blast
    with r show ?thesis unfolding q0_def by blast
  qed
qed

lemma listar_examenes_rx_vivos:
  assumes "listar_examenes_rx db u skip limit fi ff pr mes anio = Inr rs"
      and "r \<in> set rs"
  shows "\<exists>b\<in>set (examenes_base db). eb_id b = rxr_id r \<and> eb_deleted_at b = None"
proof -
  from listar_examenes_rx_filas[OF assms(1)] obtain rows where
    sub: "set rows \<subseteq> set (filter (\<lambda>(b, t). eb_tipo_examen b = ''RX'' \<and> eb_deleted_at b = None)
                                   (join_base_rx db))"
    and resp: "responses_rx rows = Inr rs" by blast
  from assms(2) have "rxr_id r \<in> set (map rxr_id rs)" by simp
  with responses_rx_ids[OF resp] have "rxr_id r \<in> (\<lambda>(b, t). eb_id b) ` set rows" by simp
  then obtain b t where bt: "(b, t) \<in> set rows" "eb_id b = rxr_id r" by auto
  with sub have "(b, t) \<in> set (join_base_rx db)" "eb_deleted_at b = None" by auto
  with bt(2) show ?thesis by (auto dest: join_base_rx_base)
qed

lemma obtener_examen_rx_vivo:
  assumes "obtener_examen_rx db u examen_id = Inr r"
  shows "\<exists>b\<in>set (examenes_base db). eb_id b = examen_id \<and> eb_deleted_at b = None"
proof -
  from assms obtain b t where
    f: "find (\<lambda>(b, t). eb_id b = examen_id \<and> eb_tipo_examen b = ''RX'' \<and> eb_deleted_at b = None)
          (join_base_rx db) = Some (b, t)"
    by (auto simp: obtener_examen_rx_def split: sum.splits option.splits)
  from find_Some_set[OF f]
  have "(b, t) \<in> set (join_base_rx db)" "eb_id b = examen_id" "eb_deleted_at b = None"
    by auto
  then show ?thesis by (auto dest: join_base_rx_base)
qed

lemma eliminar_examen_rx_ok:
  assumes admin: "usr_rol cu = ''administrador''"
      and user: "usr_id cu \<in> set (map usr_id (usuarios db))"
      and found: "find (\<lambda>b. eb_id b = examen_id \<and> eb_tipo_examen b = ''RX'' \<and>
                           eb_deleted_at b = None) (examenes_base db) = Some e"
      and ok: "base_row_check db e = None"
  shows "eliminar_examen_rx now db cu examen_id =
           (Inr (),
            db\<lparr>examenes_base :=
                 map (\<lambda>b. if eb_id b = examen_id
                           then e\<lparr>eb_deleted_at := Some now,
                                  eb_updated_by := Some (usr_id cu),
                                  eb_updated_at := Some now\<rparr>
                           else b)
                   (examenes_base db)\<rparr>)"
proof -
  from find_Some_set[OF found] have id: "eb_id e = examen_id" and nd: "eb_deleted_at e = None"
    by auto
  let ?e1 = "e\<lparr>eb_deleted_at := Some now, eb_updated_by := Some (usr_id cu)\<rparr>"
  have ne: "?e1 \<noteq> e"
  proof
    assume "?e1 = e"
    then have "eb_deleted_at ?e1 = eb_deleted_at e" by simp
    with nd show False by simp
  qed
  then have t: "touch_base now e ?e1 = e\<lparr>eb_deleted_at := Some now,
                                  eb_updated_by := Some (usr_id cu),
                                  eb_updated_at := Some now\<rparr>"
    by (simp add: touch_base_def)
  have fk: "fk_ok (map usr_id (usuarios db)) (Some (usr_id cu))"
    using user by (simp add: fk_ok_def)
  have chk: "base_row_check db (touch_base now e ?e1) = None"
    unfolding t by (rule base_row_check_auditoria[OF ok fk])
  show ?thesis
    using admin found chk
    by (simp add: eliminar_examen_rx_def require_admin_def t update_base_row_def id)
qed

lemma join_base_eco_base: "(b, t) \<in> set (join_base_eco db) \<Longrightarrow> b \<in> set (examenes_base db)"
  by (auto simp: join_base_eco_def)

lemma responses_eco_ids: "responses_eco rows = Inr rs \<Longrightarrow> map ecor_id rs = map (\<lambda>(b, t). eb_id b) rows"
proof (induction rows arbitrary: rs)
  case Nil
  then show ?case by simp
next
  case (Cons x rows)
  obtain b t where x: "x = (b, t)" by (cases x)
  from Cons.prems x obtain r rs' where
    r: "eco_response b t = Inr r" and rs': "responses_eco rows = Inr rs'" and rs: "rs = r # rs'"
    by (auto split: sum.splits)
  from r have "ecor_id r = eb_id b" by (auto simp: eco_response_def split: option.splits)
  with Cons.IH[OF rs'] rs x show ?case by simp
qed

lemma listar_examenes_eco_filas:
  assumes "listar_examenes_eco db u skip limit fi ff pr mes anio = Inr rs"
  shows "\<exists>rows. set rows \<subseteq> set (filter (\<lambda>(b, t). eb_tipo_examen b = ''ECO'' \<and> eb_deleted_at b = None)
                                   (join_base_eco db)) \<and>
                responses_eco rows = Inr rs"
proof -
  define q0 where
    "q0 = filter (\<lambda>(b, t). eb_tipo_examen b = ''ECO'' \<and> eb_deleted_at b = None) (join_base_eco db)"
  define q1 where
    "q1 = (case fi of None \<Rightarrow> q0
           | Some f \<Rightarrow> filter (\<lambda>(b, t). date_le f (eb_fecha_realizacion b)) q0)"
  define q2 where
    "q2 = (case ff of None \<Rightarrow> q1
           | Some f \<Rightarrow> filter (\<lambda>(b, t). date_le (eb_fecha_realizacion b) f) q1)"
  define q3 where
    "q3 = (case pr of None \<Rightarrow> Some q2
           | Some r \<Rightarrow>
               if r = [] then Some q2
               else (case find (\<lambda>p. pac_rut p = limpiar_rut r) (pacientes db) of
                       Some paciente \<Rightarrow>
                         Some (filter (\<lambda>(b, t). eb_paciente_id b = pac_id paciente) q2)
                     | None \<Rightarrow> None))"
  define q4 where
    "q4 = (\<lambda>q3' :: (examen_base \<times> examen_eco) list. case mes of None \<Rightarrow> q3'
                 | Some m \<Rightarrow> if m = 0 then q3'
                             else filter (\<lambda>(b, t). eb_mes_realizacion b = m) q3')"
  define q5 where
    "q5 = (\<lambda>q3' :: (examen_base \<times> examen_eco) list. case anio of None \<Rightarrow> q4 q3'
                 | Some a \<Rightarrow> if a = 0 then q4 q3'
                             else filter (\<lambda>(b, t). eb_anio_realizacion b = a) (q4 q3'))"
  have s1: "set q1 \<subseteq> set q0" unfolding q1_def by (cases fi) auto
  have s2: "set q2 \<subseteq> set q1" unfolding q2_def by (cases ff) auto
  have s3: "\<And>q. q3 = Some q \<Longrightarrow> set q \<subseteq> set q2"
    unfolding q3_def by (auto split: option.splits if_splits)
  have s4: "\<And>q. set (q4 q) \<subseteq> set q" unfolding q4_def by (cases mes) auto
  have s5: "\<And>q. set (q5 q) \<subseteq> set (q4 q)" unfolding q5_def by (cases anio) auto
  have eq: "listar_examenes_eco db u skip limit fi ff pr mes anio =
     (case require_ingresador_o_admin u of
        Inl e \<Rightarrow> Inl e
      | Inr cu \<Rightarrow>
          if \<not> (0 \<le> skip \<and> 1 \<le> limit \<and> limit \<le> 1000 \<and>
                 (case mes of None \<Rightarrow> True | Some m \<Rightarrow> 1 \<le> m \<and> m \<le> 12))
          then Inl ValidationError
          else (case q3 of
                  None \<Rightarrow> Inr []
                | Some q3' \<Rightarrow>
                    responses_eco (take (nat limit) (drop (nat skip) (order_by_fecha_desc (q5 q3'))))))"
    unfolding listar_examenes_eco_def q0_def q1_def q2_def q3_def q4_def q5_def Let_def
    by (rule refl)
  show ?thesis
  proof (cases q3)
    case None
    with assms eq have "rs = []" by (auto split: sum.splits if_splits)
    then have "set [] \<subseteq> set q0 \<and> responses_eco [] = Inr rs" by simp
    then show ?thesis unfolding q0_def by blast
  next
    case (Some q)
    let ?rows = "take (nat limit) (drop (nat skip) (order_by_fecha_desc (q5 q)))"
    from assms eq Some have r: "responses_eco ?rows = Inr rs"
      by (auto split: sum.splits if_splits)
    have "set ?rows \<subseteq> set (q5 q)"
      using set_take_subset set_drop_subset set_order_by_fecha_desc by (metis subset_trans)
    with s1 s2 s3[OF Some] s4[of q] s5[of q] have "set ?rows \<subseteq> set q0" by blast
    with r show ?thesis unfolding q0_def by blast
  qed
qed

lemma listar_examenes_eco_vivos:
  assumes "listar_examenes_eco db u skip limit fi ff pr mes anio = Inr rs"
      and "r \<in> set rs"
  shows "\<exists>b\<in>set (examenes_base db). eb_id b = ecor_id r \<and> eb_deleted_at b = None"
proof -
  from listar_examenes_eco_filas[OF assms(1)] obtain rows where
    sub: "set rows \<subseteq> set (filter (\<lambda>(b, t). eb_tipo_examen b = ''ECO'' \<and> eb_deleted_at b = None)
                                   (join_base_eco db))"
    and resp: "responses_eco rows = Inr rs" by blast
  from assms(2) have "ecor_id r \<in> set (map ecor_id rs)" by simp
  with responses_eco_ids[OF resp] have "ecor_id r \<in> (\<lambda>(b, t). eb_id b) ` set rows" by simp
  then obtain b t where bt: "(b, t) \<in> set rows" "eb_id b = ecor_id r" by auto
  with sub have "(b, t) \<in> set (join_base_eco db)" "eb_deleted_at b = None" by auto
  with bt(2) show ?thesis by (auto dest: join_base_eco_base)
qed

lemma obtener_examen_eco_vivo:
  assumes "obtener_examen_eco db u examen_id = Inr r"
  shows "\<exists>b\<in>set (examenes_base db). eb_id b = examen_id \<and> eb_deleted_at b = None"
proof -
  from assms obtain b t where
    f: "find (\<lambda>(b, t). eb_id b = examen_id \<and> eb_tipo_examen b = ''ECO'' \<and> eb_deleted_at b = None)
          (join_base_eco db) = Some (b, t)"
    by (auto simp: obtener_examen_eco_def split: sum.splits option.splits)
  from find_Some_set[OF f]
  have "(b, t) \<in> set (join_base_eco db)" "eb_id b = examen_id" "eb_deleted_at b = None"
    by auto
  then show ?thesis by (auto dest: join_base_eco_base)
qed

lemma eliminar_examen_eco_ok:
  assumes admin: "usr_rol cu = ''administrador''"
      and user: "usr_id cu \<in> set (map usr_id (usuarios db))"
      and found: "find (\<lambda>b. eb_id b = examen_id \<and> eb_tipo_examen b = ''ECO'' \<and>
                           eb_deleted_at b = None) (examenes_base db) = Some e"
      and ok: "base_row_check db e = None"
  shows "eliminar_examen_eco now db cu examen_id =
           (Inr (),
            db\<lparr>examenes_base :=
                 map (\<lambda>b. if eb_id b = examen_id
                           then e\<lparr>eb_deleted_at := Some now,
                                  eb_updated_by := Some (usr_id cu),
                                  eb_updated_at := Some now\<rparr>
                           else b)
                   (examenes_base db)\<rparr>)"
proof -
  from find_Some_set[OF found] have id: "eb_id e = examen_id" and nd: "eb_deleted_at e = None"
    by auto
  let ?e1 = "e\<lparr>eb_deleted_at := Some now, eb_updated_by := Some (usr_id cu)\<rparr>"
  have ne: "?e1 \<noteq> e"
  proof
    assume "?e1 = e"
    then have "eb_deleted_at ?e1 = eb_deleted_at e" by simp
    with nd show False by simp
  qed
  then have t: "touch_base now e ?e1 = e\<lparr>eb_deleted_at := Some now,
                                  eb_updated_by := Some (usr_id cu),
                                  eb_updated_at := Some now\<rparr>"
    by (simp add: touch_base_def)
  have fk: "fk_ok (map usr_id (usuarios db)) (Some (usr_id cu))"
    using user by (simp add: fk_ok_def)
  have chk: "base_row_check db (touch_base now e ?e1) = None"
    unfolding t by (rule base_row_check_auditoria[OF ok fk])
  show ?thesis
    using admin found chk
    by (simp add: eliminar_examen_eco_def require_admin_def t update_base_row_def id)
qed

lemma find_con_tipo:
  "find (\<lambda>b. eb_id b = k \<and> eb_deleted_at b = None) xs = Some e \<Longrightarrow>
   find (\<lambda>b. eb_id b = k \<and> eb_tipo_examen b = eb_tipo_examen e \<and> eb_deleted_at b = None) xs = Some e"
  by (induction xs) (auto split: if_splits)

lemma base_row_check_tipo:
  "base_row_check db e = None \<Longrightarrow> \<exists>tipo. tipo_examen_de tipo = eb_tipo_examen e"
proof -
  assume "base_row_check db e = None"
  then have "eb_tipo_examen e = ''TAC'' \<or> eb_tipo_examen e = ''RX'' \<or> eb_tipo_examen e = ''ECO''"
    by (auto simp: base_row_check_def split: if_splits)
  then show ?thesis
    using tipo_examen_de.simps by metis
qed

text \<open>
  C6, as the code has it. Take any stored, not yet deleted exam whose row satisfies
  its constraints, and an administrator who is a stored user. The exam's type names
  one of the three delete routes, and that route succeeds and rewrites the base row
  with three columns changed: \<open>deleted_at\<close> and \<open>updated_at\<close> hold the clock reading
  and \<open>updated_by\<close> the caller. Every other column of the row, every base row with
  another key, the three specialization tables and all other tables stay as they
  were, and no row is removed. In the store the delete leaves, no listing of CT,
  X-ray or ultrasound exams (with any filters and page, for any caller) contains the
  exam, and no single-exam read of any of the three types returns it.
\<close>

theorem eliminar_examen_soft_delete:
  assumes admin: "usr_rol cu = ''administrador''"
      and user: "usr_id cu \<in> set (map usr_id (usuarios db))"
      and found: "find (\<lambda>b. eb_id b = examen_id \<and> eb_deleted_at b = None) (examenes_base db) = Some e"
      and ok: "base_row_check db e = None"
  shows "\<exists>tipo db'.
           tipo_examen_de tipo = eb_tipo_examen e \<and>
           eliminar_examen tipo now db cu examen_id = (Inr (), db') \<and>
           db' = db\<lparr>examenes_base :=
                      map (\<lambda>b. if eb_id b = examen_id
                                then e\<lparr>eb_deleted_at := Some now,
                                       eb_updated_by := Some (usr_id cu),
                                       eb_updated_at := Some now\<rparr>
                                else b)
                        (examenes_base db)\<rparr> \<and>
           examenes_tac db' = examenes_tac db \<and>
           examenes_rx db' = examenes_rx db \<and>
           examenes_eco db' = examenes_eco db \<and>
           map eb_id (examenes_base db') = map eb_id (examenes_base db) \<and>
           (\<forall>u skip limit fi ff pr mes anio rs.
              listar_examenes_tac db' u skip limit fi ff pr mes anio = Inr rs \<longrightarrow>
              examen_id \<notin> r_id ` set rs) \<and>
           (\<forall>u skip limit fi ff pr mes anio rs.
              listar_examenes_rx db' u skip limit fi ff pr mes anio = Inr rs \<longrightarrow>
              examen_id \<notin> rxr_id ` set rs) \<and>
           (\<forall>u skip limit fi ff pr mes anio rs.
              listar_examenes_eco db' u skip limit fi ff pr mes anio = Inr rs \<longrightarrow>
              examen_id \<notin> ecor_id ` set rs) \<and>
           (\<forall>u r. obtener_examen_tac db' u examen_id \<noteq> Inr r) \<and>
           (\<forall>u r. obtener_examen_rx db' u examen_id \<noteq> Inr r) \<and>
           (\<forall>u r. obtener_examen_eco db' u examen_id \<noteq> Inr r)"
proof -
  let ?e' = "e\<lparr>eb_deleted_at := Some now, eb_updated_by := Some (usr_id cu),
                eb_updated_at := Some now\<rparr>"
  let ?db' = "db\<lparr>examenes_base :=
                   map (\<lambda>b. if eb_id b = examen_id then ?e' else b) (examenes_base db)\<rparr>"
  from base_row_check_tipo[OF ok] obtain tipo where tipo: "tipo_examen_de tipo = eb_tipo_examen e"
    by blast
  have found': "find (\<lambda>b. eb_id b = examen_id \<and> eb_tipo_examen b = tipo_examen_de tipo \<and>
                            eb_deleted_at b = None) (examenes_base db) = Some e"
    unfolding tipo by (rule find_con_tipo[OF found])
  have run: "eliminar_examen tipo now db cu examen_id = (Inr (), ?db')"
  proof (cases tipo)
    case TAC
    with found' show ?thesis by (simp add: eliminar_examen_tac_ok[OF admin user _ ok])
  next
    case RX
    with found' show ?thesis by (simp add: eliminar_examen_rx_ok[OF admin user _ ok])
  next
    case ECO
    with found' show ?thesis by (simp add: eliminar_examen_eco_ok[OF admin user _ ok])
  qed
  from find_Some_set[OF found] have id: "eb_id e = examen_id" by auto
  have ids: "map eb_id (examenes_base ?db') = map eb_id (examenes_base db)"
    by (simp add: id comp_def cong: map_cong)
  have borrado: "\<And>b. b \<in> set (examenes_base ?db') \<Longrightarrow> eb_id b = examen_id \<Longrightarrow>
                     eb_deleted_at b = Some now"
    by (auto split: if_splits)
  have vivo: "\<not> (\<exists>b\<in>set (examenes_base ?db'). eb_id b = examen_id \<and> eb_deleted_at b = None)"
  proof
    assume "\<exists>b\<in>set (examenes_base ?db'). eb_id b = examen_id \<and> eb_deleted_at b = None"
    then obtain b where
      "b \<in> set (examenes_base ?db')" "eb_id b = examen_id" "eb_deleted_at b = None" by blast
    with borrado[of b] show False by simp
  qed
  have lst_tac: "\<forall>u skip limit fi ff pr mes anio rs.
              listar_examenes_tac ?db' u skip limit fi ff pr mes anio = Inr rs \<longrightarrow>
              examen_id \<notin> r_id ` set rs"
  proof (intro allI impI notI)
    fix u skip limit fi ff pr mes anio rs
    assume l: "listar_examenes_tac ?db' u skip limit fi ff pr mes anio = Inr rs"
      and m: "examen_id \<in> r_id ` set rs"
    from m obtain r where r: "r \<in> set rs" "r_id r = examen_id" by auto
    from listar_examenes_tac_vivos[OF l r(1)] r(2) vivo show False by simp
  qed
  have lst_rx: "\<forall>u skip limit fi ff pr mes anio rs.
              listar_examenes_rx ?db' u skip limit fi ff pr mes anio = Inr rs \<longrightarrow>
              examen_id \<notin> rxr_id ` set rs"
  proof (intro allI impI notI)
    fix u skip limit fi ff pr mes anio rs
    assume l: "listar_examenes_rx ?db' u skip limit fi ff pr mes anio = Inr rs"
      and m: "examen_id \<in> rxr_id ` set rs"
    from m obtain r where r: "r \<in> set rs" "rxr_id r = examen_id" by auto
    from listar_examenes_rx_vivos[OF l r(1)] r(2) vivo show False by simp
  qed
  have lst_eco: "\<forall>u skip limit fi ff pr mes anio rs.
              listar_examenes_eco ?db' u skip limit fi ff pr mes anio = Inr rs \<longrightarrow>
              examen_id \<notin> ecor_id ` set rs"
  proof (intro allI impI notI)
    fix u skip limit fi ff pr mes anio rs
    assume l: "listar_examenes_eco ?db' u skip limit fi ff pr mes anio = Inr rs"
      and m: "examen_id \<in> ecor_id ` set rs"
    from m obtain r where r: "r \<in> set rs" "ecor_id r = examen_id" by auto
    from listar_examenes_eco_vivos[OF l r(1)] r(2) vivo show False by simp
  qed
  have get_tac: "\<forall>u r. obtener_examen_tac ?db' u examen_id \<noteq> Inr r"
  proof (intro allI notI)
    fix u r
    assume "obtener_examen_tac ?db' u examen_id = Inr r"
    from obtener_examen_tac_vivo[OF this] vivo show False by simp
  qed
  have get_rx: "\<forall>u r. obtener_examen_rx ?db' u examen_id \<noteq> Inr r"
  proof (intro allI notI)
    fix u r
    assume "obtener_examen_rx ?db' u examen_id = Inr r"
    from obtener_examen_rx_vivo[OF this] vivo show False by simp
  qed
  have get_eco: "\<forall>u r. obtener_examen_eco ?db' u examen_id \<noteq> Inr r"
  proof (intro allI notI)
    fix u r
    assume "obtener_examen_eco ?db' u examen_id = Inr r"
    from obtener_examen_eco_vivo[OF this] vivo show False by simp
  qed
  have esp: "examenes_tac ?db' = examenes_tac db" "examenes_rx ?db' = examenes_rx db"
    "examenes_eco ?db' = examenes_eco db" by simp_all
  show ?thesis
    apply (rule exI[of _ tipo])
    apply (rule exI[of _ ?db'])
    apply (intro conjI)
    apply (rule tipo)
    apply (rule run)
    apply (rule refl)
    apply (rule esp(1))
    apply (rule esp(2))
    apply (rule esp(3))
    apply (rule ids)
    apply (rule lst_tac)
    apply (rule lst_rx)
    apply (rule lst_eco)
    apply (rule get_tac)
    apply (rule get_rx)
    apply (rule get_eco)
    done
qed

theorem eliminar_examen_soft_delete_witness:
  "(\<exists>db'. eliminar_examen TAC 9 ej_db3 ej_admin 1 = (Inr (), db') \<and>
     examenes_tac db' = [ej_tac] \<and> examenes_rx db' = [ej_rx] \<and> examenes_eco db' = [ej_eco] \<and>
     map eb_id (examenes_base db') = [1, 2, 3] \<and>
     map eb_deleted_at (examenes_base db') = [Some 9, None, None] \<and>
     listar_examenes_tac db' ej_ingresador 0 100 None None None None None = Inr [] \<and>
     obtener_examen_tac db' ej_ingresador 1 = Inl HTTP_404) \<and>
   (\<exists>db'. eliminar_examen RX 9 ej_db3 ej_admin 2 = (Inr (), db') \<and>
     examenes_tac db' = [ej_tac] \<and> examenes_rx db' = [ej_rx] \<and> examenes_eco db' = [ej_eco] \<and>
     map eb_id (examenes_base db') = [1, 2, 3] \<and>
     map eb_deleted_at (examenes_base db') = [None, Some 9, None] \<and>
     listar_examenes_rx db' ej_ingresador 0 100 None None None None None = Inr [] \<and>
     obtener_examen_rx db' ej_ingresador 2 = Inl HTTP_404) \<and>
   (\<exists>db'. eliminar_examen ECO 9 ej_db3 ej_admin 3 = (Inr (), db') \<and>
     examenes_tac db' = [ej_tac] \<and> examenes_rx db' = [ej_rx] \<and> examenes_eco db' = [ej_eco] \<and>
     map eb_id (examenes_base db') = [1, 2, 3] \<and>
     map eb_deleted_at (examenes_base db') = [None, None, Some 9] \<and>
     listar_examenes_eco db' ej_ingresador 0 100 None None None None None = Inr [] \<and>
     obtener_examen_eco db' ej_ingresador 3 = Inl HTTP_404)"
proof -
  have a: "usr_rol ej_admin = ''administrador''" by (simp add: ej_admin_def)
  have u: "usr_id ej_admin \<in> set (map usr_id (usuarios ej_db3))"
    by (simp add: ej_db3_def ej_db_def ej_admin_def)
  have esp: "examenes_tac ej_db3 = [ej_tac]" "examenes_rx ej_db3 = [ej_rx]"
    "examenes_eco ej_db3 = [ej_eco]"
    by (simp_all add: ej_db3_def ej_db_def)
  have ids: "map eb_id (examenes_base ej_db3) = [1, 2, 3]"
    by (simp add: ej_db3_def ej_base_def ej_base_rx_def ej_base_eco_def)
  have f1: "find (\<lambda>b. eb_id b = 1 \<and> eb_deleted_at b = None) (examenes_base ej_db3) = Some ej_base"
    by (simp add: ej_db3_def ej_base_def)
  have c1: "base_row_check ej_db3 ej_base = None" by code_simp
  have t1: "\<And>tipo. tipo_examen_de tipo = eb_tipo_examen ej_base \<Longrightarrow> tipo = TAC"
  proof -
    fix tipo assume "tipo_examen_de tipo = eb_tipo_examen ej_base"
    then show "tipo = TAC" by (cases tipo) (simp_all add: ej_base_def)
  qed
  from eliminar_examen_soft_delete[OF a u f1 c1, of 9] obtain tipo1 db1 where
    d1: "tipo_examen_de tipo1 = eb_tipo_examen ej_base"
       "eliminar_examen tipo1 9 ej_db3 ej_admin 1 = (Inr (), db1)"
       "db1 = ej_db3\<lparr>examenes_base :=
                      map (\<lambda>b. if eb_id b = 1
                                then ej_base\<lparr>eb_deleted_at := Some 9,
                                       eb_updated_by := Some (usr_id ej_admin),
                                       eb_updated_at := Some 9\<rparr>
                                else b)
                        (examenes_base ej_db3)\<rparr>"
       "examenes_tac db1 = examenes_tac ej_db3"
       "examenes_rx db1 = examenes_rx ej_db3"
       "examenes_eco db1 = examenes_eco ej_db3"
       "map eb_id (examenes_base db1) = map eb_id (examenes_base ej_db3)"
    by (elim exE conjE) (rule that)
  have r1: "eliminar_examen TAC 9 ej_db3 ej_admin 1 = (Inr (), db1)"
    using d1(2) t1[OF d1(1)] by simp
  have dl1: "map eb_deleted_at (examenes_base db1) = [Some 9, None, None]"
    unfolding d1(3) by (simp add: ej_db3_def ej_base_def ej_base_rx_def ej_base_eco_def)
  have l1: "listar_examenes_tac db1 ej_ingresador 0 100 None None None None None = Inr []"
    unfolding d1(3) by code_simp
  have g1: "obtener_examen_tac db1 ej_ingresador 1 = Inl HTTP_404"
    unfolding d1(3) by code_simp
  have w1: "\<exists>db'. eliminar_examen TAC 9 ej_db3 ej_admin 1 = (Inr (), db') \<and>
     examenes_tac db' = [ej_tac] \<and> examenes_rx db' = [ej_rx] \<and> examenes_eco db' = [ej_eco] \<and>
     map eb_id (examenes_base db') = [1, 2, 3] \<and>
     map eb_deleted_at (examenes_base db') = [Some 9, None, None] \<and>
     listar_examenes_tac db' ej_ingresador 0 100 None None None None None = Inr [] \<and>
     obtener_examen_tac db' ej_ingresador 1 = Inl HTTP_404"
    using r1 d1(4,5,6,7) esp ids dl1 l1 g1 by (intro exI[of _ db1]) simp
  have f2: "find (\<lambda>b. eb_id b = 2 \<and> eb_deleted_at b = None) (examenes_base ej_db3) = Some ej_base_rx"
    by (simp add: ej_db3_def ej_base_def ej_base_rx_def)
  have c2: "base_row_check ej_db3 ej_base_rx = None" by code_simp
  have t2: "\<And>tipo. tipo_examen_de tipo = eb_tipo_examen ej_base_rx \<Longrightarrow> tipo = RX"
  proof -
    fix tipo assume "tipo_examen_de tipo = eb_tipo_examen ej_base_rx"
    then show "tipo = RX" by (cases tipo) (simp_all add: ej_base_rx_def)
  qed
  from eliminar_examen_soft_delete[OF a u f2 c2, of 9] obtain tipo2 db2 where
    d2: "tipo_examen_de tipo2 = eb_tipo_examen ej_base_rx"
       "eliminar_examen tipo2 9 ej_db3 ej_admin 2 = (Inr (), db2)"
       "db2 = ej_db3\<lparr>examenes_base :=
                      map (\<lambda>b. if eb_id b = 2
                                then ej_base_rx\<lparr>eb_deleted_at := Some 9,
                                       eb_updated_by := Some (usr_id ej_admin),
                                       eb_updated_at := Some 9\<rparr>
                                else b)
                        (examenes_base ej_db3)\<rparr>"
       "examenes_tac db2 = examenes_tac ej_db3"
       "examenes_rx db2 = examenes_rx ej_db3"
       "examenes_eco db2 = examenes_eco ej_db3"
       "map eb_id (examenes_base db2) = map eb_id (examenes_base ej_db3)"
    by (elim exE conjE) (rule that)
  have r2: "eliminar_examen RX 9 ej_db3 ej_admin 2 = (Inr (), db2)"
    using d2(2) t2[OF d2(1)] by simp
  have dl2: "map eb_deleted_at (examenes_base db2) = [None, Some 9, None]"
    unfolding d2(3) by (simp add: ej_db3_def ej_base_def ej_base_rx_def ej_base_eco_def)
  have l2: "listar_examenes_rx db2 ej_ingresador 0 100 None None None None None = Inr []"
    unfolding d2(3) by code_simp
  have g2: "obtener_examen_rx db2 ej_ingresador 2 = Inl HTTP_404"
    unfolding d2(3) by code_simp
  have w2: "\<exists>db'. eliminar_examen RX 9 ej_db3 ej_admin 2 = (Inr (), db') \<and>
     examenes_tac db' = [ej_tac] \<and> examenes_rx db' = [ej_rx] \<and> examenes_eco db' = [ej_eco] \<and>
     map eb_id (examenes_base db') = [1, 2, 3] \<and>
     map eb_deleted_at (examenes_base db') = [None, Some 9, None] \<and>
     listar_examenes_rx db' ej_ingresador 0 100 None None None None None = Inr [] \<and>
     obtener_examen_rx db' ej_ingresador 2 = Inl HTTP_404"
    using r2 d2(4,5,6,7) esp ids dl2 l2 g2 by (intro exI[of _ db2]) simp
  have f3: "find (\<lambda>b. eb_id b = 3 \<and> eb_deleted_at b = None) (examenes_base ej_db3) = Some ej_base_eco"
    by (simp add: ej_db3_def ej_base_def ej_base_rx_def ej_base_eco_def)
  have c3: "base_row_check ej_db3 ej_base_eco = None" by code_simp
  have t3: "\<And>tipo. tipo_examen_de tipo = eb_tipo_examen ej_base_eco \<Longrightarrow> tipo = ECO"
  proof -
    fix tipo assume "tipo_examen_de tipo = eb_tipo_examen ej_base_eco"
    then show "tipo = ECO" by (cases tipo) (simp_all add: ej_base_eco_def)
  qed
  from eliminar_examen_soft_delete[OF a u f3 c3, of 9] obtain tipo3 db3 where
    d3: "tipo_examen_de tipo3 = eb_tipo_examen ej_base_eco"
       "eliminar_examen tipo3 9 ej_db3 ej_admin 3 = (Inr (), db3)"
       "db3 = ej_db3\<lparr>examenes_base :=
                      map (\<lambda>b. if eb_id b = 3
                                then ej_base_eco\<lparr>eb_deleted_at := Some 9,
                                       eb_updated_by := Some (usr_id ej_admin),
                                       eb_updated_at := Some 9\<rparr>
                                else b)
                        (examenes_base ej_db3)\<rparr>"
       "examenes_tac db3 = examenes_tac ej_db3"
       "examenes_rx db3 = examenes_rx ej_db3"
       "examenes_eco db3 = examenes_eco ej_db3"
       "map eb_id (examenes_base db3) = map eb_id (examenes_base ej_db3)"
    by (elim exE conjE) (rule that)
  have r3: "eliminar_examen ECO 9 ej_db3 ej_admin 3 = (Inr (), db3)"
    using d3(2) t3[OF d3(1)] by simp
  have dl3: "map eb_deleted_at (examenes_base db3) = [None, None, Some 9]"
    unfolding d3(3) by (simp add: ej_db3_def ej_base_def ej_base_rx_def ej_base_eco_def)
  have l3: "listar_examenes_eco db3 ej_ingresador 0 100 None None None None None = Inr []"
    unfolding d3(3) by code_simp
  have g3: "obtener_examen_eco db3 ej_ingresador 3 = Inl HTTP_404"
    unfolding d3(3) by code_simp
  have w3: "\<exists>db'. eliminar_examen ECO 9 ej_db3 ej_admin 3 = (Inr (), db') \<and>
     examenes_tac db' = [ej_tac] \<and> examenes_rx db' = [ej_rx] \<and> examenes_eco db' = [ej_eco] \<and>
     map eb_id (examenes_base db') = [1, 2, 3] \<and>
     map eb_deleted_at (examenes_base db') = [None, None, Some 9] \<and>
     listar_examenes_eco db' ej_ingresador 0 100 None None None None None = Inr [] \<and>
     obtener_examen_eco db' ej_ingresador 3 = Inl HTTP_404"
    using r3 d3(4,5,6,7) esp ids dl3 l3 g3 by (intro exI[of _ db3]) simp
  from w1 w2 w3 show ?thesis by (intro conjI)
qed

text \<open>
  C6 as stated fails: the soft delete also changes \<open>updated_at\<close>, a base column that
  is neither the deletion timestamp nor the last modifier.
\<close>

theorem eliminar_examen_tac_updated_at_counterexample:
  "fst (eliminar_examen_tac 9 ej_db ej_admin 1) = Inr () \<and>
   map eb_updated_at (examenes_base ej_db) = [Some 5] \<and>
   map eb_updated_at (examenes_base (snd (eliminar_examen_tac 9 ej_db ej_admin 1))) = [Some 9]"
proof -
  have 1: "fst (eliminar_examen_tac 9 ej_db ej_admin 1) = Inr ()" by code_simp
  have 2: "map eb_updated_at (examenes_base ej_db) = [Some 5]" by code_simp
  have 3: "map eb_updated_at (examenes_base (snd (eliminar_examen_tac 9 ej_db ej_admin 1))) =
             [Some 9]" by code_simp
  from 1 2 3 show ?thesis by blast
qed

section \<open>Deleting a patient\<close>

text \<open>
  C8, as the code has it. Only an administrator deletes a patient: any other caller
  gets 403 and the store stays as it was. Exams do not block the delete: for a stored
  patient the administrator's call succeeds, and it removes the patient's row, every
  base row that refers to the patient and the CT, X-ray and ultrasound rows of those
  base rows. The rows of other patients and of their exams stay, in their order, and
  users are not touched.
\<close>

theorem eliminar_paciente_cascada:
  "(usr_rol cu \<noteq> ''administrador'' \<longrightarrow>
      eliminar_paciente db cu paciente_id = (Inl HTTP_403, db)) \<and>
   (usr_rol cu = ''administrador'' \<and>
    find (\<lambda>p. pac_id p = paciente_id) (pacientes db) = Some p \<longrightarrow>
      (\<exists>db'. eliminar_paciente db cu paciente_id = (Inr (), db') \<and>
         pacientes db' = filter (\<lambda>x. pac_id x \<noteq> paciente_id) (pacientes db) \<and>
         examenes_base db' =
           filter (\<lambda>b. eb_paciente_id b \<noteq> paciente_id) (examenes_base db) \<and>
         examenes_tac db' =
           filter (\<lambda>t. \<not> list_ex (\<lambda>b. eb_paciente_id b = paciente_id \<and>
                                       eb_id b = tac_examen_base_id t) (examenes_base db))
             (examenes_tac db) \<and>
         examenes_rx db' =
           filter (\<lambda>x. \<not> list_ex (\<lambda>b. eb_paciente_id b = paciente_id \<and>
                                       eb_id b = rx_examen_base_id x) (examenes_base db))
             (examenes_rx db) \<and>
         examenes_eco db' =
           filter (\<lambda>x. \<not> list_ex (\<lambda>b. eb_paciente_id b = paciente_id \<and>
                                       eb_id b = eco_examen_base_id x) (examenes_base db))
             (examenes_eco db) \<and>
         usuarios db' = usuarios db))"
proof -
  have a: "usr_rol cu \<noteq> ''administrador'' \<longrightarrow>
      eliminar_paciente db cu paciente_id = (Inl HTTP_403, db)"
    by (simp add: eliminar_paciente_def)
  have b: "usr_rol cu = ''administrador'' \<and>
    find (\<lambda>p. pac_id p = paciente_id) (pacientes db) = Some p \<longrightarrow>
      (\<exists>db'. eliminar_paciente db cu paciente_id = (Inr (), db') \<and>
         pacientes db' = filter (\<lambda>x. pac_id x \<noteq> paciente_id) (pacientes db) \<and>
         examenes_base db' =
           filter (\<lambda>b. eb_paciente_id b \<noteq> paciente_id) (examenes_base db) \<and>
         examenes_tac db' =
           filter (\<lambda>t. \<not> list_ex (\<lambda>b. eb_paciente_id b = paciente_id \<and>
                                       eb_id b = tac_examen_base_id t) (examenes_base db))
             (examenes_tac db) \<and>
         examenes_rx db' =
           filter (\<lambda>x. \<not> list_ex (\<lambda>b. eb_paciente_id b = paciente_id \<and>
                                       eb_id b = rx_examen_base_id x) (examenes_base db))
             (examenes_rx db) \<and>
         examenes_eco db' =
           filter (\<lambda>x. \<not> list_ex (\<lambda>b. eb_paciente_id b = paciente_id \<and>
                                       eb_id b = eco_examen_base_id x) (examenes_base db))
             (examenes_eco db) \<and>
         usuarios db' = usuarios db)"
  proof
    assume h: "usr_rol cu = ''administrador'' \<and>
      find (\<lambda>p. pac_id p = paciente_id) (pacientes db) = Some p"
    then have f: "find (\<lambda>p. pac_id p = paciente_id) (pacientes db) = Some p" by blast
    from find_Some_set[OF f] have id: "pac_id p = paciente_id" by blast
    have run: "eliminar_paciente db cu paciente_id = (Inr (), delete_paciente p db)"
      using h by (simp add: eliminar_paciente_def)
    have eqv: "\<And>k. (k \<in> eb_id ` {x \<in> set (examenes_base db). eb_paciente_id x = paciente_id}) =
                 list_ex (\<lambda>b. eb_paciente_id b = paciente_id \<and> eb_id b = k) (examenes_base db)"
      by (force simp: list_ex_iff)
    have p: "pacientes (delete_paciente p db) =
               filter (\<lambda>x. pac_id x \<noteq> paciente_id) (pacientes db)"
      by (simp add: delete_paciente_def Let_def id)
    have e: "examenes_base (delete_paciente p db) =
               filter (\<lambda>b. eb_paciente_id b \<noteq> paciente_id) (examenes_base db)"
      by (simp add: delete_paciente_def Let_def id)
    have t: "examenes_tac (delete_paciente p db) =
           filter (\<lambda>t. \<not> list_ex (\<lambda>b. eb_paciente_id b = paciente_id \<and>
                                       eb_id b = tac_examen_base_id t) (examenes_base db))
             (examenes_tac db)"
      by (simp add: delete_paciente_def Let_def id eqv)
    have r: "examenes_rx (delete_paciente p db) =
           filter (\<lambda>x. \<not> list_ex (\<lambda>b. eb_paciente_id b = paciente_id \<and>
                                       eb_id b = rx_examen_base_id x) (examenes_base db))
             (examenes_rx db)"
      by (simp add: delete_paciente_def Let_def id eqv)
    have c: "examenes_eco (delete_paciente p db) =
           filter (\<lambda>x. \<not> list_ex (\<lambda>b. eb_paciente_id b = paciente_id \<and>
                                       eb_id b = eco_examen_base_id x) (examenes_base db))
             (examenes_eco db)"
      by (simp add: delete_paciente_def Let_def id eqv)
    have us: "usuarios (delete_paciente p db) = usuarios db"
      by (simp add: delete_paciente_def Let_def)
    show "\<exists>db'. eliminar_paciente db cu paciente_id = (Inr (), db') \<and>
         pacientes db' = filter (\<lambda>x. pac_id x \<noteq> paciente_id) (pacientes db) \<and>
         examenes_base db' =
           filter (\<lambda>b. eb_paciente_id b \<noteq> paciente_id) (examenes_base db) \<and>
         examenes_tac db' =
           filter (\<lambda>t. \<not> list_ex (\<lambda>b. eb_paciente_id b = paciente_id \<and>
                                       eb_id b = tac_examen_base_id t) (examenes_base db))
             (examenes_tac db) \<and>
         examenes_rx db' =
           filter (\<lambda>x. \<not> list_ex (\<lambda>b. eb_paciente_id b = paciente_id \<and>
                                       eb_id b = rx_examen_base_id x) (examenes_base db))
             (examenes_rx db) \<and>
         examenes_eco db' =
           filter (\<lambda>x. \<not> list_ex (\<lambda>b. eb_paciente_id b = paciente_id \<and>
                                       eb_id b = eco_examen_base_id x) (examenes_base db))
             (examenes_eco db) \<and>
         usuarios db' = usuarios db"
      apply (rule exI[of _ "delete_paciente p db"])
      apply (intro conjI)
      apply (rule run)
      apply (rule p)
      apply (rule e)
      apply (rule t)
      apply (rule r)
      apply (rule c)
      apply (rule us)
      done
  qed
  from a b show ?thesis by (rule conjI)
qed

theorem eliminar_paciente_cascada_witness:
  "eliminar_paciente ej_db3 ej_ingresador 1 = (Inl HTTP_403, ej_db3) \<and>
   (\<exists>db'. eliminar_paciente ej_db3 ej_admin 1 = (Inr (), db') \<and>
      map eb_id (examenes_base ej_db3) = [1, 2, 3] \<and>
      examenes_rx ej_db3 = [ej_rx] \<and> examenes_eco ej_db3 = [ej_eco] \<and>
      pacientes db' = [] \<and> examenes_base db' = [] \<and> examenes_tac db' = [] \<and>
      examenes_rx db' = [] \<and> examenes_eco db' = [] \<and>
      usuarios db' = usuarios ej_db3)"
proof -
  have 1: "eliminar_paciente ej_db3 ej_ingresador 1 = (Inl HTTP_403, ej_db3)"
    using eliminar_paciente_cascada[of ej_ingresador ej_db3 1] by (simp add: ej_ingresador_def)
  have h: "usr_rol ej_admin = ''administrador'' \<and>
           find (\<lambda>p. pac_id p = 1) (pacientes ej_db3) = Some ej_paciente"
    by (simp add: ej_admin_def ej_db3_def ej_db_def ej_paciente_def)
  from eliminar_paciente_cascada[of ej_admin ej_db3 1 ej_paciente] h
  have "\<exists>db'. eliminar_paciente ej_db3 ej_admin 1 = (Inr (), db') \<and>
         pacientes db' = filter (\<lambda>x. pac_id x \<noteq> 1) (pacientes ej_db3) \<and>
         examenes_base db' = filter (\<lambda>b. eb_paciente_id b \<noteq> 1) (examenes_base ej_db3) \<and>
         examenes_tac db' =
           filter (\<lambda>t. \<not> list_ex (\<lambda>b. eb_paciente_id b = 1 \<and>
                                       eb_id b = tac_examen_base_id t) (examenes_base ej_db3))
             (examenes_tac ej_db3) \<and>
         examenes_rx db' =
           filter (\<lambda>x. \<not> list_ex (\<lambda>b. eb_paciente_id b = 1 \<and>
                                       eb_id b = rx_examen_base_id x) (examenes_base ej_db3))
             (examenes_rx ej_db3) \<and>
         examenes_eco db' =
           filter (\<lambda>x. \<not> list_ex (\<lambda>b. eb_paciente_id b = 1 \<and>
                                       eb_id b = eco_examen_base_id x) (examenes_base ej_db3))
             (examenes_eco ej_db3) \<and>
         usuarios db' = usuarios ej_db3"
    by (rule conjunct2[THEN mp])
  then obtain db' where
    d: "eliminar_paciente ej_db3 ej_admin 1 = (Inr (), db')"
       "pacientes db' = filter (\<lambda>x. pac_id x \<noteq> 1) (pacientes ej_db3)"
       "examenes_base db' = filter (\<lambda>b. eb_paciente_id b \<noteq> 1) (examenes_base ej_db3)"
       "examenes_tac db' =
           filter (\<lambda>t. \<not> list_ex (\<lambda>b. eb_paciente_id b = 1 \<and>
                                       eb_id b = tac_examen_base_id t) (examenes_base ej_db3))
             (examenes_tac ej_db3)"
       "examenes_rx db' =
           filter (\<lambda>x. \<not> list_ex (\<lambda>b. eb_paciente_id b = 1 \<and>
                                       eb_id b = rx_examen_base_id x) (examenes_base ej_db3))
             (examenes_rx ej_db3)"
       "examenes_eco db' =
           filter (\<lambda>x. \<not> list_ex (\<lambda>b. eb_paciente_id b = 1 \<and>
                                       eb_id b = eco_examen_base_id x) (examenes_base ej_db3))
             (examenes_eco ej_db3)"
       "usuarios db' = usuarios ej_db3"
    by (elim exE conjE) (rule that)
  have antes: "map eb_id (examenes_base ej_db3) = [1, 2, 3]"
    "examenes_rx ej_db3 = [ej_rx]" "examenes_eco ej_db3 = [ej_eco]"
    by (simp_all add: ej_db3_def ej_db_def ej_base_def ej_base_rx_def ej_base_eco_def)
  have v: "pacientes db' = []" "examenes_base db' = []" "examenes_tac db' = []"
    "examenes_rx db' = []" "examenes_eco db' = []"
    unfolding d(2,3,4,5,6)
    by (simp_all add: ej_db3_def ej_db_def ej_paciente_def ej_base_def ej_base_rx_def
          ej_base_eco_def ej_tac_def ej_rx_def ej_eco_def)
  have 2: "\<exists>db'. eliminar_paciente ej_db3 ej_admin 1 = (Inr (), db') \<and>
      map eb_id (examenes_base ej_db3) = [1, 2, 3] \<and>
      examenes_rx ej_db3 = [ej_rx] \<and> examenes_eco ej_db3 = [ej_eco] \<and>
      pacientes db' = [] \<and> examenes_base db' = [] \<and> examenes_tac db' = [] \<and>
      examenes_rx db' = [] \<and> examenes_eco db' = [] \<and>
      usuarios db' = usuarios ej_db3"
    using d(1,7) antes v by (intro exI[of _ db']) simp
  from 1 2 show ?thesis by (rule conjI)
qed

text \<open>
  C8 as stated fails: the patient of the example store is referenced by an exam, and
  the administrator's delete removes the patient's row.
\<close>

theorem eliminar_paciente_referenciado_counterexample:
  "map pac_id (pacientes ej_db) = [1] \<and>
   map eb_paciente_id (examenes_base ej_db) = [1] \<and>
   fst (eliminar_paciente ej_db ej_admin 1) = Inr () \<and>
   pacientes (snd (eliminar_paciente ej_db ej_admin 1)) = []"
proof -
  have 1: "map pac_id (pacientes ej_db) = [1]" by code_simp
  have 2: "map eb_paciente_id (examenes_base ej_db) = [1]" by code_simp
  have 3: "fst (eliminar_paciente ej_db ej_admin 1) = Inr ()" by code_simp
  have 4: "pacientes (snd (eliminar_paciente ej_db ej_admin 1)) = []" by code_simp
  from 1 2 3 4 show ?thesis by blast
qed

section \<open>A user's own account\<close>

lemma toggle_usuario_propio:
  "\<exists>e. toggle_usuario now db cu (usr_id cu) = (Inl e, db)"
proof (cases "find (\<lambda>u. usr_id u = usr_id cu) (usuarios db)")
  case None
  then show ?thesis
    by (auto simp: toggle_usuario_def require_admin_def)
next
  case (Some u)
  from find_Some_set[OF Some] have "usr_id u = usr_id cu" by blast
  with Some show ?thesis
    by (auto simp: toggle_usuario_def require_admin_def)
qed

lemma eliminar_usuario_propio:
  "\<exists>e. eliminar_usuario now db cu (usr_id cu) flag = (Inl e, db)"
proof (cases "find (\<lambda>u. usr_id u = usr_id cu) (usuarios db)")
  case None
  then show ?thesis
    by (auto simp: eliminar_usuario_def require_admin_def)
next
  case (Some u)
  from find_Some_set[OF Some] have "usr_id u = usr_id cu" by blast
  with Some show ?thesis
    by (auto simp: eliminar_usuario_def require_admin_def)
qed

lemma eliminar_mi_cuenta_Inr:
  assumes "eliminar_mi_cuenta vp now db cu pw = (Inr (), db')"
  shows "vp pw (usr_password_hash cu) \<and>
         \<not> list_ex (\<lambda>b. eb_created_by b = Some (usr_id cu)) (examenes_base db) \<and>
         db' = delete_usuario now cu db"
  using assms
  by (auto simp: eliminar_mi_cuenta_def Let_def list_ex_iff filter_empty_conv
      split: if_splits)

lemma eliminar_usuario_con_examenes:
  assumes admin: "usr_rol cu = ''administrador''"
      and found: "find (\<lambda>u. usr_id u = usuario_id) (usuarios db) = Some target"
      and otro: "usuario_id \<noteq> usr_id cu"
      and tiene: "list_ex (\<lambda>b. eb_created_by b = Some usuario_id) (examenes_base db)"
  shows "eliminar_usuario now db cu usuario_id False = (Inl HTTP_400, db)"
    and "eliminar_usuario now db cu usuario_id True =
           (Inr (), delete_usuario now target (soft_delete_creados now usuario_id db))"
proof -
  from find_Some_set[OF found] have id: "usr_id target = usuario_id" by blast
  show "eliminar_usuario now db cu usuario_id False = (Inl HTTP_400, db)"
    using admin found otro tiene id
    by (auto simp: eliminar_usuario_def require_admin_def Let_def filter_empty_conv list_ex_iff)
  show "eliminar_usuario now db cu usuario_id True =
           (Inr (), delete_usuario now target (soft_delete_creados now usuario_id db))"
    using admin found otro id
    by (simp add: eliminar_usuario_def require_admin_def Let_def)
qed

lemma desasociar_conserva:
  "eb_id (desasociar now uid b) = eb_id b \<and>
   eb_deleted_at (desasociar now uid b) = eb_deleted_at b"
  by (simp add: desasociar_def touch_base_def)

lemma cascada_filas:
  assumes db'_def: "db' = delete_usuario now target (soft_delete_creados now uid db)"
      and id: "usr_id target = uid"
  shows "\<not> list_ex (\<lambda>u. usr_id u = uid) (usuarios db')"
    and "map eb_id (examenes_base db') = map eb_id (examenes_base db)"
    and "\<forall>i<length (examenes_base db).
           eb_created_by (examenes_base db ! i) = Some uid \<longrightarrow>
           eb_deleted_at (examenes_base db' ! i) = Some now"
proof -
  show "\<not> list_ex (\<lambda>u. usr_id u = uid) (usuarios db')"
    by (simp add: db'_def delete_usuario_def soft_delete_creados_def id list_ex_iff)
  show "map eb_id (examenes_base db') = map eb_id (examenes_base db)"
    by (simp add: db'_def delete_usuario_def soft_delete_creados_def comp_def desasociar_conserva)
  show "\<forall>i<length (examenes_base db).
           eb_created_by (examenes_base db ! i) = Some uid \<longrightarrow>
           eb_deleted_at (examenes_base db' ! i) = Some now"
    by (simp add: db'_def delete_usuario_def soft_delete_creados_def desasociar_conserva)
qed


text \<open>
  C9, as the code has it. The two administrator operations that take a user id,
  \<open>toggle_usuario\<close> and \<open>eliminar_usuario\<close>, end with an error and leave the store
  as it was when the id is the caller's own. A user does delete their own account
  through \<open>eliminar_mi_cuenta\<close>, which succeeds only when the password verifies and
  no base row was created by the user. \<open>eliminar_usuario\<close> on another stored user who
  created base rows is refused (400) without \<open>eliminar_examenes\<close>; with it, the call
  succeeds, the user's row is gone, no base row is removed and every base row the
  user created has \<open>deleted_at\<close> set to the clock reading.
\<close>

theorem usuarios_cuenta_propia:
  "(\<exists>e. toggle_usuario now db cu (usr_id cu) = (Inl e, db)) \<and>
   (\<exists>e. eliminar_usuario now db cu (usr_id cu) eliminar_examenes = (Inl e, db)) \<and>
   (eliminar_mi_cuenta verify_password now db cu password = (Inr (), db') \<longrightarrow>
      verify_password password (usr_password_hash cu) \<and>
      \<not> list_ex (\<lambda>b. eb_created_by b = Some (usr_id cu)) (examenes_base db) \<and>
      db' = delete_usuario now cu db) \<and>
   (usr_rol cu = ''administrador'' \<and>
    find (\<lambda>u. usr_id u = usuario_id) (usuarios db) = Some target \<and>
    usuario_id \<noteq> usr_id cu \<and>
    list_ex (\<lambda>b. eb_created_by b = Some usuario_id) (examenes_base db) \<longrightarrow>
      eliminar_usuario now db cu usuario_id False = (Inl HTTP_400, db) \<and>
      (\<exists>db2. eliminar_usuario now db cu usuario_id True = (Inr (), db2) \<and>
         \<not> list_ex (\<lambda>u. usr_id u = usuario_id) (usuarios db2) \<and>
         map eb_id (examenes_base db2) = map eb_id (examenes_base db) \<and>
         (\<forall>i<length (examenes_base db).
            eb_created_by (examenes_base db ! i) = Some usuario_id \<longrightarrow>
            eb_deleted_at (examenes_base db2 ! i) = Some now)))"
proof -
  have c: "eliminar_mi_cuenta verify_password now db cu password = (Inr (), db') \<longrightarrow>
      verify_password password (usr_password_hash cu) \<and>
      \<not> list_ex (\<lambda>b. eb_created_by b = Some (usr_id cu)) (examenes_base db) \<and>
      db' = delete_usuario now cu db"
    using eliminar_mi_cuenta_Inr by blast
  have d: "usr_rol cu = ''administrador'' \<and>
    find (\<lambda>u. usr_id u = usuario_id) (usuarios db) = Some target \<and>
    usuario_id \<noteq> usr_id cu \<and>
    list_ex (\<lambda>b. eb_created_by b = Some usuario_id) (examenes_base db) \<longrightarrow>
      eliminar_usuario now db cu usuario_id False = (Inl HTTP_400, db) \<and>
      (\<exists>db2. eliminar_usuario now db cu usuario_id True = (Inr (), db2) \<and>
         \<not> list_ex (\<lambda>u. usr_id u = usuario_id) (usuarios db2) \<and>
         map eb_id (examenes_base db2) = map eb_id (examenes_base db) \<and>
         (\<forall>i<length (examenes_base db).
            eb_created_by (examenes_base db ! i) = Some usuario_id \<longrightarrow>
            eb_deleted_at (examenes_base db2 ! i) = Some now))"
  proof
    assume h: "usr_rol cu = ''administrador'' \<and>
      find (\<lambda>u. usr_id u = usuario_id) (usuarios db) = Some target \<and>
      usuario_id \<noteq> usr_id cu \<and>
      list_ex (\<lambda>b. eb_created_by b = Some usuario_id) (examenes_base db)"
    then have admin: "usr_rol cu = ''administrador''"
      and found: "find (\<lambda>u. usr_id u = usuario_id) (usuarios db) = Some target"
      and otro: "usuario_id \<noteq> usr_id cu"
      and tiene: "list_ex (\<lambda>b. eb_created_by b = Some usuario_id) (examenes_base db)"
      by blast+
    from find_Some_set[OF found] have id: "usr_id target = usuario_id" by blast
    let ?db2 = "delete_usuario now target (soft_delete_creados now usuario_id db)"
    note r = eliminar_usuario_con_examenes[OF admin found otro tiene, of now]
    note f = cascada_filas[OF refl id, where now = now and db = db]
    from r(2) f have "\<exists>db2. eliminar_usuario now db cu usuario_id True = (Inr (), db2) \<and>
         \<not> list_ex (\<lambda>u. usr_id u = usuario_id) (usuarios db2) \<and>
         map eb_id (examenes_base db2) = map eb_id (examenes_base db) \<and>
         (\<forall>i<length (examenes_base db).
            eb_created_by (examenes_base db ! i) = Some usuario_id \<longrightarrow>
            eb_deleted_at (examenes_base db2 ! i) = Some now)"
      by (intro exI[of _ ?db2]) simp
    with r(1) show "eliminar_usuario now db cu usuario_id False = (Inl HTTP_400, db) \<and>
      (\<exists>db2. eliminar_usuario now db cu usuario_id True = (Inr (), db2) \<and>
         \<not> list_ex (\<lambda>u. usr_id u = usuario_id) (usuarios db2) \<and>
         map eb_id (examenes_base db2) = map eb_id (examenes_base db) \<and>
         (\<forall>i<length (examenes_base db).
            eb_created_by (examenes_base db ! i) = Some usuario_id \<longrightarrow>
            eb_deleted_at (examenes_base db2 ! i) = Some now))"
      by blast
  qed
  from toggle_usuario_propio eliminar_usuario_propio c d show ?thesis by blast
qed

theorem usuarios_cuenta_propia_witness:
  "toggle_usuario 9 ej_db ej_admin 1 = (Inl HTTP_400, ej_db) \<and>
   eliminar_usuario 9 ej_db ej_admin 1 True = (Inl HTTP_400, ej_db) \<and>
   eliminar_usuario 9 ej_db ej_admin 2 False = (Inl HTTP_400, ej_db) \<and>
   (\<exists>db2. eliminar_usuario 9 ej_db ej_admin 2 True = (Inr (), db2) \<and>
      map usr_id (usuarios db2) = [1, 3] \<and>
      map eb_id (examenes_base db2) = [1] \<and>
      eb_deleted_at (examenes_base db2 ! 0) = Some 9) \<and>
   (\<exists>db3. eliminar_mi_cuenta ej_verify_password 9 ej_db ej_nuevo ''secreto'' = (Inr (), db3) \<and>
      ej_verify_password ''secreto'' (usr_password_hash ej_nuevo) \<and>
      db3 = delete_usuario 9 ej_nuevo ej_db)"
proof -
  note t = usuarios_cuenta_propia[of 9 ej_db ej_admin True ej_verify_password "''secreto''"
      _ 2 ej_ingresador]
  have id1: "usr_id ej_admin = 1" by (simp add: ej_admin_def)
  from t obtain e1 where "toggle_usuario 9 ej_db ej_admin (usr_id ej_admin) = (Inl e1, ej_db)"
    by blast
  moreover have "fst (toggle_usuario 9 ej_db ej_admin 1) = Inl HTTP_400" by code_simp
  ultimately have 1: "toggle_usuario 9 ej_db ej_admin 1 = (Inl HTTP_400, ej_db)"
    by (simp add: id1)
  from t obtain e2 where
    "eliminar_usuario 9 ej_db ej_admin (usr_id ej_admin) True = (Inl e2, ej_db)" by blast
  moreover have "fst (eliminar_usuario 9 ej_db ej_admin 1 True) = Inl HTTP_400" by code_simp
  ultimately have 2: "eliminar_usuario 9 ej_db ej_admin 1 True = (Inl HTTP_400, ej_db)"
    by (simp add: id1)
  have h: "usr_rol ej_admin = ''administrador'' \<and>
           find (\<lambda>u. usr_id u = 2) (usuarios ej_db) = Some ej_ingresador \<and>
           2 \<noteq> usr_id ej_admin \<and>
           list_ex (\<lambda>b. eb_created_by b = Some 2) (examenes_base ej_db)"
    by (simp add: ej_admin_def ej_db_def ej_ingresador_def ej_base_def)
  from t h have 3: "eliminar_usuario 9 ej_db ej_admin 2 False = (Inl HTTP_400, ej_db)"
    by blast
  from t h obtain db2 where
    d: "eliminar_usuario 9 ej_db ej_admin 2 True = (Inr (), db2)"
       "map eb_id (examenes_base db2) = map eb_id (examenes_base ej_db)"
       "\<forall>i<length (examenes_base ej_db).
            eb_created_by (examenes_base ej_db ! i) = Some 2 \<longrightarrow>
            eb_deleted_at (examenes_base db2 ! i) = Some 9"
    by blast
  have u: "map usr_id (usuarios (snd (eliminar_usuario 9 ej_db ej_admin 2 True))) = [1, 3]"
    by code_simp
  have "0 < length (examenes_base ej_db) \<and> eb_created_by (examenes_base ej_db ! 0) = Some 2"
    by (simp add: ej_db_def ej_base_def)
  with d(3) have del: "eb_deleted_at (examenes_base db2 ! 0) = Some 9" by blast
  have ids: "map eb_id (examenes_base db2) = [1]"
    using d(2) by (simp add: ej_db_def ej_base_def)
  from d(1) u del ids have 4: "\<exists>db2. eliminar_usuario 9 ej_db ej_admin 2 True = (Inr (), db2) \<and>
      map usr_id (usuarios db2) = [1, 3] \<and>
      map eb_id (examenes_base db2) = [1] \<and>
      eb_deleted_at (examenes_base db2 ! 0) = Some 9"
    by (intro exI[of _ db2]) simp
  have "fst (eliminar_mi_cuenta ej_verify_password 9 ej_db ej_nuevo ''secreto'') = Inr ()"
    by code_simp
  then obtain db3 where
    m: "eliminar_mi_cuenta ej_verify_password 9 ej_db ej_nuevo ''secreto'' = (Inr (), db3)"
    by (cases "eliminar_mi_cuenta ej_verify_password 9 ej_db ej_nuevo ''secreto''") auto
  from usuarios_cuenta_propia[of 9 ej_db ej_nuevo True ej_verify_password "''secreto''" db3
      2 ej_ingresador] m
  have "ej_verify_password ''secreto'' (usr_password_hash ej_nuevo) \<and>
        db3 = delete_usuario 9 ej_nuevo ej_db" by blast
  with m have 5: "\<exists>db3. eliminar_mi_cuenta ej_verify_password 9 ej_db ej_nuevo ''secreto'' =
        (Inr (), db3) \<and>
      ej_verify_password ''secreto'' (usr_password_hash ej_nuevo) \<and>
      db3 = delete_usuario 9 ej_nuevo ej_db" by blast
  from 1 2 3 4 5 show ?thesis by blast
qed

text \<open>
  C9 as stated fails: the third user of the example store, who created no exam,
  deletes their own account with \<open>eliminar_mi_cuenta\<close>.
\<close>

theorem eliminar_mi_cuenta_counterexample:
  "map usr_id (usuarios ej_db) = [1, 2, 3] \<and>
   usr_id ej_nuevo = 3 \<and>
   fst (eliminar_mi_cuenta ej_verify_password 9 ej_db ej_nuevo ''secreto'') = Inr () \<and>
   map usr_id (usuarios (snd (eliminar_mi_cuenta ej_verify_password 9 ej_db ej_nuevo
                                ''secreto''))) = [1, 2]"
proof -
  have 1: "map usr_id (usuarios ej_db) = [1, 2, 3]" by code_simp
  have 2: "usr_id ej_nuevo = 3" by code_simp
  have 3: "fst (eliminar_mi_cuenta ej_verify_password 9 ej_db ej_nuevo ''secreto'') = Inr ()"
    by code_simp
  have 4: "map usr_id (usuarios (snd (eliminar_mi_cuenta ej_verify_password 9 ej_db ej_nuevo
                                ''secreto''))) = [1, 2]"
    by code_simp
  from 1 2 3 4 show ?thesis by blast
qed

section \<open>Updating a CT exam\<close>





















end
